theory Spec2Isabelle
  imports Complex_Main "HOL-Library.Log_Nat" "HOL-Library.Sublist" "HOL-Library.Word"
begin

unbundle bit_operations_syntax

section \<open>Python strings\<close>

text \<open>
  Texts are Python \<open>str\<close> values whose code points lie below 256; a \<open>char\<close> is one
  code point. \<open>split_char\<close> is \<open>str.split(sep)\<close> for a separator of one character: it
  always returns at least one part.
\<close>

fun split_char :: "char \<Rightarrow> string \<Rightarrow> string list" where
  "split_char c [] = [[]]"
| "split_char c (x # xs) =
     (if x = c then [] # split_char c xs
      else (case split_char c xs of
              [] \<Rightarrow> [[x]]
            | p # ps \<Rightarrow> (x # p) # ps))"

text \<open>\<open>sep.join(parts)\<close> for a separator of one character.\<close>

fun join_char :: "char \<Rightarrow> string list \<Rightarrow> string" where
  "join_char c [] = []"
| "join_char c [p] = p"
| "join_char c (p # q # ps) = p @ c # join_char c (q # ps)"

text \<open>\<open>needle in haystack\<close> on strings.\<close>

fun contains :: "string \<Rightarrow> string \<Rightarrow> bool" where
  "contains [] needle = (needle = [])"
| "contains (x # xs) needle = (prefix needle (x # xs) \<or> contains xs needle)"

text \<open>
  \<open>str.isspace\<close> on one code point below 256: tab, line feed, vertical tab, form feed,
  carriage return, the separators 0x1c to 0x1f, space, next line (0x85) and no-break
  space (0xa0). The regular expression class \<open>\s\<close> on \<open>str\<close> patterns is the same set.
\<close>

definition is_space :: "char \<Rightarrow> bool" where
  "is_space c = ((of_char c :: nat) \<in> set [9, 10, 11, 12, 13, 28, 29, 30, 31, 32, 133, 160])"

definition strip :: "string \<Rightarrow> string" where
  "strip s = rev (dropWhile is_space (rev (dropWhile is_space s)))"

text \<open>\<open>str.lower\<close> on one code point below 256: A to Z, and 0xc0 to 0xde but the
  multiplication sign 0xd7, move up by 32.\<close>

definition lower_char :: "char \<Rightarrow> char" where
  "lower_char c =
     (let n = (of_char c :: nat)
      in if (65 \<le> n \<and> n \<le> 90) \<or> (192 \<le> n \<and> n \<le> 222 \<and> n \<noteq> 215)
         then char_of (n + 32) else c)"

definition lower :: "string \<Rightarrow> string" where
  "lower s = map lower_char s"

section \<open>Python floats\<close>

text \<open>
  A Python \<open>float\<close> is an IEEE 754 double: a real with a significand of 53 bits. Every
  \<open>+\<close>, \<open>-\<close>, \<open>*\<close> and \<open>/\<close> on floats gives the double nearest to the exact result, a tie
  going to the even significand; \<open>double x\<close> is that double, so that \<open>a + b\<close> on floats is
  \<open>double (a + b)\<close>. \<open>expo x\<close> is the binary exponent of a positive \<open>x\<close>: the \<open>e\<close> with
  \<open>2 ^ e \<le> x < 2 ^ (e + 1)\<close>. The exponent is not bounded here: the results agree with
  the machine's for magnitudes from \<open>2 ^ -1022\<close> up to \<open>2 ^ 1024\<close>, where no overflow and
  no gradual underflow occurs.
\<close>

definition expo :: "real \<Rightarrow> int" where
  "expo x = (if x \<ge> 1 then bitlen \<lfloor>x\<rfloor> - 1 else - bitlen (\<lceil>1 / x\<rceil> - 1))"

text \<open>The integer nearest to \<open>y\<close>, the even one of two that are equally near.\<close>

definition rne :: "real \<Rightarrow> int" where
  "rne y =
     (let n = \<lfloor>y\<rfloor>; r = y - of_int n
      in if r < 1 / 2 then n
         else if r > 1 / 2 then n + 1
         else if even n then n else n + 1)"

text \<open>A positive \<open>x\<close> rounded to 53 significant bits.\<close>

definition round53 :: "real \<Rightarrow> real" where
  "round53 x = of_int (rne (x / 2 powi (expo x - 52))) * 2 powi (expo x - 52)"

definition double :: "real \<Rightarrow> real" where
  "double x = (if x = 0 then 0 else if x > 0 then round53 x else - round53 (- x))"

section \<open>queue\_consumer.py\<close>

text \<open>
  \<^verbatim>\<open>
  def extract_brand_from_queue(queue_key: str) -> str:
      parts = queue_key.split(":")
      return parts[2] if len(parts) >= 3 else "unknown"
  \<close>
\<close>

definition extract_brand_from_queue :: "string \<Rightarrow> string" where
  "extract_brand_from_queue queue_key =
     (let parts = split_char CHR '':'' queue_key
      in if length parts \<ge> 3 then parts ! 2 else ''unknown'')"

section \<open>processor.py: text cleaning and preprocessing\<close>

text \<open>
  \<open>CLEAN_URL_RE = re.compile(r"https?://\S+")\<close>. \<open>url_match s\<close> is the match of the
  expression anchored at the start of \<open>s\<close>: the text left after it, or \<open>None\<close>. The scheme
  must be followed by at least one character that is not white space, and \<open>\S+\<close> is
  greedy.
\<close>

definition url_match :: "string \<Rightarrow> string option" where
  "url_match s =
     (if prefix ''https://'' s \<and> drop 8 s \<noteq> [] \<and> \<not> is_space (hd (drop 8 s))
      then Some (dropWhile (\<lambda>c. \<not> is_space c) (drop 8 s))
      else if prefix ''http://'' s \<and> drop 7 s \<noteq> [] \<and> \<not> is_space (hd (drop 7 s))
      then Some (dropWhile (\<lambda>c. \<not> is_space c) (drop 7 s))
      else None)"

text \<open>\<open>CLEAN_URL_RE.sub("", text)\<close>: the matches are found left to right and do not
  overlap; the search goes on where a match ended.\<close>

function strip_urls :: "string \<Rightarrow> string" where
  "strip_urls [] = []"
| "strip_urls (c # cs) =
     (case url_match (c # cs) of
        Some rest \<Rightarrow> strip_urls rest
      | None \<Rightarrow> c # strip_urls cs)"
  by pat_completeness auto
termination
proof (relation "measure length")
  show "wf (measure (length :: string \<Rightarrow> nat))" by simp
next
  fix c :: char and cs rest :: string
  assume m: "url_match (c # cs) = Some rest"
  have a: "length (dropWhile (\<lambda>c. \<not> is_space c) (drop 8 (c # cs))) < length (c # cs)"
    using length_dropWhile_le [of "\<lambda>c. \<not> is_space c" "drop 8 (c # cs)"] by simp
  have b: "length (dropWhile (\<lambda>c. \<not> is_space c) (drop 7 (c # cs))) < length (c # cs)"
    using length_dropWhile_le [of "\<lambda>c. \<not> is_space c" "drop 7 (c # cs)"] by simp
  from m a b show "(rest, c # cs) \<in> measure length"
    by (auto simp: url_match_def split: if_splits)
next
  fix c :: char and cs :: string
  show "(cs, c # cs) \<in> measure length" by simp
qed

text \<open>\<open>CLEAN_WHITESPACE_RE.sub(" ", text)\<close> with \<open>\s+\<close>: every maximal run of white
  space becomes one space.\<close>

function collapse_whitespace :: "string \<Rightarrow> string" where
  "collapse_whitespace [] = []"
| "collapse_whitespace (c # cs) =
     (if is_space c then CHR '' '' # collapse_whitespace (dropWhile is_space cs)
      else c # collapse_whitespace cs)"
  by pat_completeness auto
termination
proof (relation "measure length")
  show "wf (measure (length :: string \<Rightarrow> nat))" by simp
next
  fix c :: char and cs :: string
  show "(dropWhile is_space cs, c # cs) \<in> measure length"
    using length_dropWhile_le [of is_space cs] by simp
next
  fix c :: char and cs :: string
  show "(cs, c # cs) \<in> measure length" by simp
qed

text \<open>
  \<^verbatim>\<open>
  def _clean_text(text: str) -> str:
      text = CLEAN_URL_RE.sub("", text)
      text = CLEAN_WHITESPACE_RE.sub(" ", text)
      text = text.strip().lower()
      return text
  \<close>
\<close>

definition clean_text :: "string \<Rightarrow> string" where
  "clean_text t = lower (strip (collapse_whitespace (strip_urls t)))"

section \<open>types.py: the data model\<close>

text \<open>A decoded JSON value. An object is a Python \<open>dict\<close>, kept as an association list;
  a number is a Python \<open>int\<close> or \<open>float\<close>, kept as a real.\<close>

datatype json =
    JNull
  | JBool bool
  | JNum real
  | JStr string
  | JArr "json list"
  | JObj "(string \<times> json) list"

text \<open>\<open>d.get(key, default)\<close> on a dictionary.\<close>

definition dict_get :: "('k \<times> 'v) list \<Rightarrow> 'k \<Rightarrow> 'v \<Rightarrow> 'v" where
  "dict_get d k dflt = (case map_of d k of None \<Rightarrow> dflt | Some v \<Rightarrow> v)"

text \<open>The exceptions the modelled code raises or lets through.\<close>

datatype error =
    ValueError string
  | TypeError
  | AttributeError
  | IndexError
  | ValidationError
  | JSONDecodeError
  | TimeoutError
  | RedisError
  | ClientError string

text \<open>A \<open>datetime\<close> is kept as its POSIX timestamp in seconds.\<close>

record mention =
  m_id :: string
  m_source :: string
  m_text :: string
  m_created_at :: real
  m_sentiment :: "(string \<times> real) list option"
  m_metadata :: "(string \<times> json) list option"

record chunk_meta =
  chunk_index :: "int option"
  total_chunks :: "int option"

record chunk =
  c_brand :: string
  c_chunk_id :: string
  c_created_at :: real
  c_mentions :: "mention list"
  c_meta :: "chunk_meta option"

record cluster_result =
  cr_cluster_id :: int
  cr_count :: int
  cr_examples :: "string list"
  cr_summary :: "string option"
  cr_spike :: bool
  cr_sentiment :: "(string \<times> real) list"
  cr_topics :: "string list option"

text \<open>Durations in milliseconds, Python floats: each is a real, and every sum, difference
  and product that the code forms of them is rounded with \<open>double\<close>.\<close>

record chunk_metrics =
  preprocessing_time_ms :: real
  embedding_time_ms :: real
  clustering_time_ms :: real
  llm_time_ms :: real
  spike_detection_time_ms :: real
  io_time_ms :: real
  total_task_time_ms :: real

record chunk_result =
  r_chunk_id :: string
  r_brand :: string
  r_timestamp :: int
  r_clusters :: "cluster_result list"
  r_metrics :: chunk_metrics

record failure_record =
  f_worker_id :: string
  f_brand :: string
  f_chunk_id :: string
  f_reason :: string
  f_payload :: string

section \<open>processor.py: preprocessing\<close>

text \<open>
  The loop of \<open>_preprocess\<close>. \<open>dedup\<close> is a Python \<open>dict\<close>, which keeps its keys in the
  order of insertion: an association list that only grows at its end.
  \<^verbatim>\<open>
  dedup: dict[str, Mention] = {}
  for mention in chunk.mentions:
      cleaned = self._clean_text(mention.text)
      if not cleaned:
          continue
      if cleaned in dedup:
          continue
      dedup[cleaned] = Mention(id=mention.id, source=mention.source, text=cleaned,
          created_at=mention.created_at, sentiment=mention.sentiment,
          metadata=mention.metadata)
  ...
  return list(dedup.values())
  \<close>
\<close>

fun preprocess_loop :: "(string \<times> mention) list \<Rightarrow> mention list \<Rightarrow> (string \<times> mention) list" where
  "preprocess_loop dedup [] = dedup"
| "preprocess_loop dedup (m # ms) =
     (let cleaned = clean_text (m_text m)
      in if cleaned = [] then preprocess_loop dedup ms
         else if cleaned \<in> fst ` set dedup then preprocess_loop dedup ms
         else preprocess_loop
                (dedup @ [(cleaned,
                   \<lparr>m_id = m_id m, m_source = m_source m, m_text = cleaned,
                    m_created_at = m_created_at m, m_sentiment = m_sentiment m,
                    m_metadata = m_metadata m\<rparr>)])
                ms)"

definition preprocess :: "mention list \<Rightarrow> mention list" where
  "preprocess mentions = map snd (preprocess_loop [] mentions)"




section \<open>embeddings.py: the hash-based fallback\<close>

text \<open>
  \<open>hashlib.sha256(data).digest()\<close>, after FIPS 180-4: the message is padded to whole
  blocks of 64 bytes, each block updates eight words of 32 bits in 64 rounds, and the
  digest is the eight words, most significant byte first. The round constants and the
  initial state are written in decimal.
\<close>

type_synonym byte = "8 word"
type_synonym w32 = "32 word"
type_synonym sha_state = "w32 \<times> w32 \<times> w32 \<times> w32 \<times> w32 \<times> w32 \<times> w32 \<times> w32"

definition sha_k :: "w32 list" where
  "sha_k = [
    1116352408, 1899447441, 3049323471, 3921009573, 961987163, 1508970993, 2453635748, 2870763221,
    3624381080, 310598401, 607225278, 1426881987, 1925078388, 2162078206, 2614888103, 3248222580,
    3835390401, 4022224774, 264347078, 604807628, 770255983, 1249150122, 1555081692, 1996064986,
    2554220882, 2821834349, 2952996808, 3210313671, 3336571891, 3584528711, 113926993, 338241895,
    666307205, 773529912, 1294757372, 1396182291, 1695183700, 1986661051, 2177026350, 2456956037,
    2730485921, 2820302411, 3259730800, 3345764771, 3516065817, 3600352804, 4094571909, 275423344,
    430227734, 506948616, 659060556, 883997877, 958139571, 1322822218, 1537002063, 1747873779,
    1955562222, 2024104815, 2227730452, 2361852424, 2428436474, 2756734187, 3204031479, 3329325298]"

definition sha_init :: sha_state where
  "sha_init = (1779033703, 3144134277, 1013904242, 2773480762,
               1359893119, 2600822924, 528734635, 1541459225)"

definition sha_ch :: "w32 \<Rightarrow> w32 \<Rightarrow> w32 \<Rightarrow> w32" where
  "sha_ch x y z = (x AND y) XOR (NOT x AND z)"

definition sha_maj :: "w32 \<Rightarrow> w32 \<Rightarrow> w32 \<Rightarrow> w32" where
  "sha_maj x y z = (x AND y) XOR (x AND z) XOR (y AND z)"

definition big_sigma0 :: "w32 \<Rightarrow> w32" where
  "big_sigma0 x = word_rotr 2 x XOR word_rotr 13 x XOR word_rotr 22 x"

definition big_sigma1 :: "w32 \<Rightarrow> w32" where
  "big_sigma1 x = word_rotr 6 x XOR word_rotr 11 x XOR word_rotr 25 x"

definition small_sigma0 :: "w32 \<Rightarrow> w32" where
  "small_sigma0 x = word_rotr 7 x XOR word_rotr 18 x XOR drop_bit 3 x"

definition small_sigma1 :: "w32 \<Rightarrow> w32" where
  "small_sigma1 x = word_rotr 17 x XOR word_rotr 19 x XOR drop_bit 10 x"

fun be_words :: "byte list \<Rightarrow> w32 list" where
  "be_words (a # b # c # d # rest) =
     (push_bit 24 (ucast a) OR push_bit 16 (ucast b) OR push_bit 8 (ucast c) OR ucast d) # be_words rest"
| "be_words _ = []"

definition be_bytes :: "w32 \<Rightarrow> byte list" where
  "be_bytes w = [ucast (drop_bit 24 w), ucast (drop_bit 16 w), ucast (drop_bit 8 w), ucast w]"

fun extend_schedule :: "nat \<Rightarrow> w32 list \<Rightarrow> w32 list" where
  "extend_schedule 0 w = w"
| "extend_schedule (Suc n) w =
     (let t = length w
      in extend_schedule n
           (w @ [small_sigma1 (w ! (t - 2)) + w ! (t - 7) + small_sigma0 (w ! (t - 15)) + w ! (t - 16)]))"

definition sha_round :: "sha_state \<Rightarrow> w32 \<times> w32 \<Rightarrow> sha_state" where
  "sha_round s kw =
     (case s of (a, b, c, d, e, f, g, h) \<Rightarrow>
        (let t1 = h + big_sigma1 e + sha_ch e f g + fst kw + snd kw;
             t2 = big_sigma0 a + sha_maj a b c
         in (t1 + t2, a, b, c, d + t1, e, f, g)))"

definition sha_add :: "sha_state \<Rightarrow> sha_state \<Rightarrow> sha_state" where
  "sha_add s t =
     (case s of (a, b, c, d, e, f, g, h) \<Rightarrow>
      case t of (a', b', c', d', e', f', g', h') \<Rightarrow>
        (a + a', b + b', c + c', d + d', e + e', f + f', g + g', h + h'))"

definition sha_block :: "sha_state \<Rightarrow> byte list \<Rightarrow> sha_state" where
  "sha_block s block =
     sha_add s (foldl sha_round s (zip sha_k (extend_schedule 48 (be_words block))))"

definition sha_pad :: "byte list \<Rightarrow> byte list" where
  "sha_pad bs =
     bs @ [0x80] @ replicate ((64 - (length bs + 9) mod 64) mod 64) 0
        @ map (\<lambda>i. ucast (drop_bit (8 * (7 - i)) (word_of_nat (8 * length bs) :: 64 word))) [0..<8]"

definition sha_blocks :: "byte list \<Rightarrow> byte list list" where
  "sha_blocks bs = map (\<lambda>i. take 64 (drop (64 * i) bs)) [0..<length bs div 64]"

definition sha256 :: "byte list \<Rightarrow> byte list" where
  "sha256 bs =
     (case foldl sha_block sha_init (sha_blocks (sha_pad bs)) of
        (a, b, c, d, e, f, g, h) \<Rightarrow> concat (map be_bytes [a, b, c, d, e, f, g, h]))"

text \<open>\<open>text.encode("utf-8")\<close> for code points below 256: one byte below 128, two bytes
  from there on.\<close>

definition utf8_char :: "char \<Rightarrow> byte list" where
  "utf8_char c =
     (let n = (of_char c :: nat)
      in if n < 128 then [of_nat n]
         else [of_nat (192 + n div 64), of_nat (128 + n mod 64)])"

definition utf8 :: "string \<Rightarrow> byte list" where
  "utf8 s = concat (map utf8_char s)"




section \<open>config.py\<close>

datatype provider = Mock | Openai | Gemini | Local

text \<open>The fields of \<open>Settings\<close> that the modelled code reads, and the private attribute
  \<open>_generated_worker_id\<close>.\<close>

record settings =
  worker_id :: "string option"
  embeddings_provider :: provider
  llm_provider :: provider
  embedding_api_key :: "string option"
  gemini_api_key :: "string option"
  openai_api_key :: "string option"
  llm_min_delay_sec :: real
  llm_max_concurrency :: nat
  generated_worker_id :: "string option"

text \<open>Truth value of an optional string: \<open>None\<close> and the empty string are false.\<close>

definition truthy :: "string option \<Rightarrow> bool" where
  "truthy v = (case v of None \<Rightarrow> False | Some s \<Rightarrow> s \<noteq> [])"

text \<open>
  \<^verbatim>\<open>
  @model_validator(mode="after")
  def _validate_llm_configuration(self) -> "Settings":
      if self.llm_provider == "gemini" and not self.gemini_api_key:
          raise ValueError("GEMINI_API_KEY must be set when LLM_PROVIDER is 'gemini'")
      if self.llm_provider == "openai" and not self.openai_api_key:
          raise ValueError("OPENAI_API_KEY must be set when LLM_PROVIDER is 'openai'")
      if self.embeddings_provider != "local" and not self.embedding_api_key:
          raise ValueError("EMBEDDING_API_KEY must be set when EMBEDDINGS_PROVIDER is not 'local'")
      return self
  \<close>
\<close>

definition validate_llm_configuration :: "settings \<Rightarrow> error + settings" where
  "validate_llm_configuration s =
     (if llm_provider s = Gemini \<and> \<not> truthy (gemini_api_key s)
      then Inl (ValueError ''GEMINI_API_KEY must be set when LLM_PROVIDER is 'gemini' '')
      else if llm_provider s = Openai \<and> \<not> truthy (openai_api_key s)
      then Inl (ValueError ''OPENAI_API_KEY must be set when LLM_PROVIDER is 'openai' '')
      else if embeddings_provider s \<noteq> Local \<and> \<not> truthy (embedding_api_key s)
      then Inl (ValueError ''EMBEDDING_API_KEY must be set when EMBEDDINGS_PROVIDER is not 'local' '')
      else Inr s)"

text \<open>
  \<open>Settings()\<close>: the fields are read from the environment \<open>env\<close> by pydantic-settings
  (\<open>read_env\<close>, which may refuse them), the validator runs, and \<open>__init__\<close> sets
  \<open>_generated_worker_id\<close> to \<open>None\<close>.
\<close>

definition new_settings :: "('e \<Rightarrow> error + settings) \<Rightarrow> 'e \<Rightarrow> error + settings" where
  "new_settings read_env env =
     (case read_env env of
        Inl e \<Rightarrow> Inl e
      | Inr s \<Rightarrow>
          (case validate_llm_configuration s of
             Inl e \<Rightarrow> Inl e
           | Inr s' \<Rightarrow> Inr (s'\<lparr>generated_worker_id := None\<rparr>)))"

text \<open>
  The state of the process that configuration touches: the one slot of
  \<open>lru_cache(maxsize=1)\<close> around \<open>get_settings\<close>, which holds the \<open>Settings\<close> object, and
  the number of identifiers drawn from \<open>uuid.uuid4\<close> so far. \<open>uuid4 n\<close> is the text of the
  \<open>n\<close>-th identifier drawn.
\<close>

record config_state =
  settings_cache :: "settings option"
  uuids_drawn :: nat

text \<open>\<open>get_settings()\<close>: a cached object is returned as it is; a call that raises caches
  nothing.\<close>

definition get_settings ::
  "('e \<Rightarrow> error + settings) \<Rightarrow> 'e \<Rightarrow> config_state \<Rightarrow> (error + settings) \<times> config_state" where
  "get_settings read_env env st =
     (case settings_cache st of
        Some s \<Rightarrow> (Inr s, st)
      | None \<Rightarrow>
          (case new_settings read_env env of
             Inl e \<Rightarrow> (Inl e, st)
           | Inr s \<Rightarrow> (Inr s, st\<lparr>settings_cache := Some s\<rparr>)))"




section \<open>llm\_executor.py\<close>

text \<open>
  The module's globals: the two shared clients (\<open>None\<close> until built), the free permits of
  the semaphore (\<open>None\<close> until it is built) and the minimum delay.
\<close>

datatype handle = ChatGoogleGenerativeAI | GoogleGenerativeAIEmbeddings

record executor =
  chat_model :: "handle option"
  embeddings_model :: "handle option"
  semaphore :: "nat option"
  min_delay :: real

text \<open>The values \<open>_ensure_clients\<close> returns in a tuple; a tuple is the list of its
  components.\<close>

datatype pyval = Client handle | Semaphore | Float real

text \<open>What a call does that others can see, in order.\<close>

datatype event = Acquire | Invoke string | Sleep real | Release

text \<open>The prompts a chain starts with.\<close>

datatype chain = GENERAL_PROMPT | DEFAULT_PROMPT | ROADMAP_PROMPT

text \<open>
  \<^verbatim>\<open>
  def _ensure_clients() -> tuple[ChatGoogleGenerativeAI, GoogleGenerativeAIEmbeddings,
                                 asyncio.Semaphore, float]:
      global _chat_model, _embeddings_model, _semaphore, _min_delay
      if _chat_model is None or _embeddings_model is None or _semaphore is None:
          settings = get_settings()
          if not settings.gemini_api_key:
              raise ValueError("GEMINI_API_KEY must be set when using the Gemini LLM provider")
          _chat_model = ChatGoogleGenerativeAI(...)
          _embeddings_model = GoogleGenerativeAIEmbeddings(...)
          _semaphore = asyncio.Semaphore(settings.llm_max_concurrency)
          _min_delay = max(0.0, settings.llm_min_delay_sec)
          ...
      return _chat_model, _embeddings_model, _semaphore, _min_delay
  \<close>
\<close>

definition ensure_clients :: "settings \<Rightarrow> executor \<Rightarrow> (error + pyval list) \<times> executor" where
  "ensure_clients s ex =
     (if chat_model ex = None \<or> embeddings_model ex = None \<or> semaphore ex = None
      then (if \<not> truthy (gemini_api_key s)
            then (Inl (ValueError ''GEMINI_API_KEY must be set when using the Gemini LLM provider''), ex)
            else (Inr [Client ChatGoogleGenerativeAI, Client GoogleGenerativeAIEmbeddings,
                       Semaphore, Float (max 0 (llm_min_delay_sec s))],
                  \<lparr>chat_model = Some ChatGoogleGenerativeAI,
                   embeddings_model = Some GoogleGenerativeAIEmbeddings,
                   semaphore = Some (llm_max_concurrency s),
                   min_delay = max 0 (llm_min_delay_sec s)\<rparr>))
      else (Inr [Client (the (chat_model ex)), Client (the (embeddings_model ex)),
                 Semaphore, Float (min_delay ex)], ex))"

text \<open>Unpacking a tuple into three and into four names: Python raises \<open>ValueError\<close> when
  the number of components is another.\<close>

definition unpack3 :: "'a list \<Rightarrow> error + ('a \<times> 'a \<times> 'a)" where
  "unpack3 t =
     (case t of
        [a, b, c] \<Rightarrow> Inr (a, b, c)
      | _ \<Rightarrow> if length t > 3 then Inl (ValueError ''too many values to unpack (expected 3)'')
             else Inl (ValueError ''not enough values to unpack (expected 3)''))"

definition unpack4 :: "'a list \<Rightarrow> error + ('a \<times> 'a \<times> 'a \<times> 'a)" where
  "unpack4 t =
     (case t of
        [a, b, c, d] \<Rightarrow> Inr (a, b, c, d)
      | _ \<Rightarrow> if length t > 4 then Inl (ValueError ''too many values to unpack (expected 4)'')
             else Inl (ValueError ''not enough values to unpack (expected 4)''))"

text \<open>
  \<open>_run_chain\<close>. \<open>client c variables timeout\<close> is what
  \<open>asyncio.wait_for(loop.run_in_executor(None, _invoke), timeout=timeout)\<close> gives for the
  chain \<open>c\<close>: the text, or the exception (\<open>TimeoutError\<close> after \<open>timeout\<close> seconds, or the
  client's own). The result is \<open>None\<close> when the call never returns: no permit is free and,
  in a model of one caller, nobody will release one.
  \<^verbatim>\<open>
  chat, _embeddings, semaphore, min_delay = _ensure_clients()
  del chat
  async with semaphore:
      ...
      try:
          result = await asyncio.wait_for(loop.run_in_executor(None, _invoke), timeout=timeout)
          if min_delay > 0:
              await asyncio.sleep(min_delay)
          return result
      except Exception as exc:
          log_with_context(...)
          raise
  \<close>
\<close>

definition run_chain ::
  "settings \<Rightarrow> (chain \<Rightarrow> string \<Rightarrow> nat \<Rightarrow> error + string) \<Rightarrow> executor \<Rightarrow> chain \<Rightarrow> string \<Rightarrow> nat
     \<Rightarrow> (error + string) option \<times> executor \<times> event list" where
  "run_chain s client ex c variables timeout =
     (case ensure_clients s ex of
        (Inl e, ex') \<Rightarrow> (Some (Inl e), ex', [])
      | (Inr t, ex') \<Rightarrow>
          (case unpack4 t of
             Inl e \<Rightarrow> (Some (Inl e), ex', [])
           | Inr (chat, embeddings, sem, delay) \<Rightarrow>
               (case semaphore ex' of
                  None \<Rightarrow> (Some (Inl AttributeError), ex', [])
                | Some 0 \<Rightarrow> (None, ex', [])
                | Some (Suc k) \<Rightarrow>
                    (case client c variables timeout of
                       Inl e \<Rightarrow> (Some (Inl e), ex', [Acquire, Invoke variables, Release])
                     | Inr result \<Rightarrow>
                         (Some (Inr result), ex',
                          [Acquire, Invoke variables]
                          @ (case delay of
                               Float d \<Rightarrow> if d > 0 then [Sleep d] else []
                             | _ \<Rightarrow> [])
                          @ [Release])))))"

text \<open>
  \<^verbatim>\<open>
  async def invoke_prompt_text(prompt: str, *, timeout: int, brand, chunk_id, operation) -> str:
      chat, _, _ = _ensure_clients()
      chain = DEFAULT_PROMPT | chat | _parser
      return await _run_chain(chain, {"input": prompt}, timeout=timeout, ...)

  async def invoke_general(data: str, *, timeout: int, brand, chunk_id, operation) -> str:
      chat, _, _ = _ensure_clients()
      chain = GENERAL_PROMPT | chat | _parser
      return await _run_chain(chain, {"data": data}, timeout=timeout, ...)
  \<close>
\<close>

definition invoke_prompt_text ::
  "settings \<Rightarrow> (chain \<Rightarrow> string \<Rightarrow> nat \<Rightarrow> error + string) \<Rightarrow> executor \<Rightarrow> string \<Rightarrow> nat
     \<Rightarrow> (error + string) option \<times> executor \<times> event list" where
  "invoke_prompt_text s client ex prompt timeout =
     (case ensure_clients s ex of
        (Inl e, ex') \<Rightarrow> (Some (Inl e), ex', [])
      | (Inr t, ex') \<Rightarrow>
          (case unpack3 t of
             Inl e \<Rightarrow> (Some (Inl e), ex', [])
           | Inr (chat, u, v) \<Rightarrow> run_chain s client ex' DEFAULT_PROMPT prompt timeout))"

definition invoke_general ::
  "settings \<Rightarrow> (chain \<Rightarrow> string \<Rightarrow> nat \<Rightarrow> error + string) \<Rightarrow> executor \<Rightarrow> string \<Rightarrow> nat
     \<Rightarrow> (error + string) option \<times> executor \<times> event list" where
  "invoke_general s client ex data timeout =
     (case ensure_clients s ex of
        (Inl e, ex') \<Rightarrow> (Some (Inl e), ex', [])
      | (Inr t, ex') \<Rightarrow>
          (case unpack3 t of
             Inl e \<Rightarrow> (Some (Inl e), ex', [])
           | Inr (chat, u, v) \<Rightarrow> run_chain s client ex' GENERAL_PROMPT data timeout))"

section \<open>llm\_adapter.py\<close>

text \<open>\<open>str(n)\<close> for an integer.\<close>

function show_nat :: "nat \<Rightarrow> string" where
  "show_nat n =
     (if n < 10 then [''0123456789'' ! n]
      else show_nat (n div 10) @ [''0123456789'' ! (n mod 10)])"
  by pat_completeness auto
termination
  by (relation "measure id") auto

declare show_nat.simps [simp del]

definition show_int :: "int \<Rightarrow> string" where
  "show_int i = (if i < 0 then CHR ''-'' # show_nat (nat (- i)) else show_nat (nat i))"

text \<open>The line feed, and \<open>"\n".join(texts)\<close>.\<close>

definition nl :: char where
  "nl = CHR 0x0A"

definition join_lines :: "string list \<Rightarrow> string" where
  "join_lines texts = join_char nl texts"

text \<open>
  \<open>SUMMARY_PROMPT.format(joined_texts="\n".join(texts), max_tokens=...)\<close> and
  \<open>SENTIMENT_PROMPT.format(joined_texts="\n".join(texts))\<close>: the templates of the source
  with their variables filled in.
\<close>

definition summary_prompt :: "int \<Rightarrow> string list \<Rightarrow> string" where
  "summary_prompt max_tokens texts =
     ''You are an analyst summarizing brand mentions.'' @ [nl]
     @ ''Summarize the following texts into a concise overview (max '' @ show_int max_tokens
     @ '' tokens).'' @ [nl]
     @ ''Texts:'' @ [nl] @ join_lines texts @ [nl]"

definition sentiment_prompt :: "string list \<Rightarrow> string" where
  "sentiment_prompt texts =
     ''You are a sentiment analysis assistant. Analyse the sentiment of the texts below and return a JSON object with keys positive, negative, neutral whose values are floats between 0 and 1 summing to 1.''
     @ [nl] @ ''Texts:'' @ [nl] @ join_lines texts @ [nl]"

text \<open>
  What a model call gives back. \<open>Text s\<close> is the \<open>str\<close> with the characters \<open>s\<close>;
  \<open>Dumps d\<close> is the \<open>str\<close> that \<open>json.dumps(d)\<close> returns for a dictionary of floats (its
  characters depend on how floats are printed, so it is kept as the dictionary it
  encodes); \<open>Dict d\<close> is a \<open>dict\<close>; \<open>Other\<close> is any other object.
\<close>

datatype response =
    Text string
  | Dumps "(string \<times> real) list"
  | Dict "(string \<times> json) list"
  | Other

text \<open>\<open>text.split(sep, 1)[1]\<close> when \<open>sep\<close> occurs in \<open>text\<close>: what follows its first
  occurrence.\<close>

fun after_first :: "string \<Rightarrow> string \<Rightarrow> string" where
  "after_first sep [] = []"
| "after_first sep (x # xs) =
     (if prefix sep (x # xs) then drop (length sep) (x # xs) else after_first sep xs)"

definition positive_words :: "string list" where
  "positive_words =
     [''great'', ''good'', ''love'', ''awesome'', ''excellent'', ''improved'', ''success'', ''fast'']"

definition negative_words :: "string list" where
  "negative_words =
     [''bad'', ''hate'', ''poor'', ''slow'', ''issue'', ''problem'', ''bug'', ''error'']"

text \<open>The loop of \<open>MockLLM.ainvoke\<close> that sorts the lines into positive, negative and
  neutral ones; the counts in that order.\<close>

fun count_lines :: "string list \<Rightarrow> nat \<times> nat \<times> nat \<Rightarrow> nat \<times> nat \<times> nat" where
  "count_lines [] acc = acc"
| "count_lines (line # rest) (p, n, u) =
     (let low = lower line;
          pos_hits = length (filter (\<lambda>word. contains low word) positive_words);
          neg_hits = length (filter (\<lambda>word. contains low word) negative_words)
      in if pos_hits > neg_hits then count_lines rest (Suc p, n, u)
         else if neg_hits > pos_hits then count_lines rest (p, Suc n, u)
         else count_lines rest (p, n, Suc u))"

text \<open>
  \<open>MockLLM.ainvoke(input)\<close> for a \<open>str\<close> input, which is what the adapter passes:
  \<^verbatim>\<open>
  text = str(payload)
  summary = text.split("\n")[0][:160] if text else ""
  if "Analyse the sentiment" in text:
      body = text.split("Texts:\n", 1)[1] if "Texts:\n" in text else text
      lines = [line.strip() for line in body.split("\n") if line.strip()]
      if not lines:
          lines = [body.strip()] if body.strip() else []
      ...
      total = positive + negative + neutral or 1
      sentiment = {"positive": positive / total, "negative": negative / total,
                   "neutral": neutral / total}
      return json.dumps(sentiment)
  sentiment = {"positive": 0.33, "negative": 0.33, "neutral": 0.34}
  if "summary" in text.lower():
      return summary or "no summary available"
  return json.dumps(sentiment)
  \<close>
\<close>

definition mock_ainvoke :: "string \<Rightarrow> response" where
  "mock_ainvoke input =
     (let summary = (if input \<noteq> [] then take 160 (hd (split_char nl input)) else [])
      in if contains input ''Analyse the sentiment''
         then (let body = (if contains input (''Texts:'' @ [nl])
                           then after_first (''Texts:'' @ [nl]) input else input);
                   lines = filter (\<lambda>l. l \<noteq> []) (map strip (split_char nl body));
                   lines' = (if lines = []
                             then (if strip body \<noteq> [] then [strip body] else [])
                             else lines)
               in (case count_lines lines' (0, 0, 0) of
                     (p, n, u) \<Rightarrow>
                       (let total = (if p + n + u = 0 then 1 else p + n + u)
                        in Dumps [(''positive'', real p / real total),
                                  (''negative'', real n / real total),
                                  (''neutral'', real u / real total)])))
         else if contains (lower input) ''summary''
         then Text (if summary \<noteq> [] then summary else ''no summary available'')
         else Dumps [(''positive'', 33 / 100), (''negative'', 33 / 100), (''neutral'', 34 / 100)])"

text \<open>
  The models an adapter can hold. What the remote ones answer is not in the sources:
  \<open>openai prompt\<close> is what \<open>wait_for(ChatOpenAI.ainvoke(prompt), timeout)\<close> gives, and
  \<open>via_executor prompt operation\<close> what \<open>_invoke_via_executor\<close> gives. A remote answer is
  either a plain value or a message object, whose \<open>content\<close> attribute is then taken.
\<close>

datatype llm = MockLLM | GeminiProxy | ChatOpenAI

datatype raw_response = Plain response | Message response

record adapter =
  primary :: llm
  fallback :: "llm option"
  max_tokens :: int
  openai :: "string \<Rightarrow> error + raw_response"
  via_executor :: "string \<Rightarrow> string \<Rightarrow> error + raw_response"

definition call_llm :: "adapter \<Rightarrow> llm \<Rightarrow> string \<Rightarrow> string \<Rightarrow> error + raw_response" where
  "call_llm ad m prompt operation =
     (case m of
        GeminiProxy \<Rightarrow> via_executor ad prompt operation
      | ChatOpenAI \<Rightarrow> openai ad prompt
      | MockLLM \<Rightarrow> Inr (Plain (mock_ainvoke prompt)))"

text \<open>\<open>response.content if hasattr(response, "content") else response\<close>.\<close>

definition content :: "raw_response \<Rightarrow> response" where
  "content r = (case r of Plain v \<Rightarrow> v | Message v \<Rightarrow> v)"

text \<open>\<open>_invoke\<close>: the primary model, then on any exception the fallback when there is
  one.\<close>

definition invoke :: "adapter \<Rightarrow> string \<Rightarrow> string \<Rightarrow> error + response" where
  "invoke ad prompt operation =
     (case call_llm ad (primary ad) prompt operation of
        Inr r \<Rightarrow> Inr (content r)
      | Inl primary_exc \<Rightarrow>
          (case fallback ad of
             None \<Rightarrow> Inl primary_exc
           | Some fb \<Rightarrow>
               (case call_llm ad fb prompt operation of
                  Inl e \<Rightarrow> Inl e
                | Inr r \<Rightarrow> Inr (content r))))"

text \<open>
  \<^verbatim>\<open>
  async def summarize(self, texts: list[str]) -> str:
      prompt = SUMMARY_PROMPT.format(joined_texts="\n".join(texts), max_tokens=self._max_tokens)
      return await self._invoke(prompt, operation="summary")
  \<close>
\<close>

definition summarize :: "adapter \<Rightarrow> string list \<Rightarrow> error + response" where
  "summarize ad texts = invoke ad (summary_prompt (max_tokens ad) texts) ''summary''"

text \<open>\<open>float(v)\<close> on a decoded JSON value. \<open>float_of_string s\<close> is the float a string
  denotes, \<open>None\<close> when it denotes none.\<close>

definition py_float :: "(string \<Rightarrow> real option) \<Rightarrow> json \<Rightarrow> error + real" where
  "py_float float_of_string v =
     (case v of
        JNum x \<Rightarrow> Inr x
      | JBool b \<Rightarrow> Inr (if b then 1 else 0)
      | JStr s \<Rightarrow> (case float_of_string s of
                     None \<Rightarrow> Inl (ValueError ''could not convert string to float'')
                   | Some x \<Rightarrow> Inr x)
      | JNull \<Rightarrow> Inl TypeError
      | JArr xs \<Rightarrow> Inl TypeError
      | JObj d \<Rightarrow> Inl TypeError)"

definition default_sentiment :: "(string \<times> json) list" where
  "default_sentiment =
     [(''positive'', JNum (33 / 100)), (''negative'', JNum (33 / 100)), (''neutral'', JNum (34 / 100))]"

text \<open>
  What \<open>sentiment\<close> does with the response. \<open>json_loads s\<close> is \<open>json.loads(s)\<close>, \<open>None\<close>
  when it raises \<open>JSONDecodeError\<close>.
  \<^verbatim>\<open>
  if isinstance(response, str):
      try:
          parsed = json.loads(response)
      except json.JSONDecodeError:
          parsed = {"positive": 0.33, "negative": 0.33, "neutral": 0.34}
  elif isinstance(response, dict):
      parsed = response
  else:
      parsed = {"positive": 0.33, "negative": 0.33, "neutral": 0.34}
  return {
      "positive": float(parsed.get("positive", 0.0)),
      "negative": float(parsed.get("negative", 0.0)),
      "neutral": float(parsed.get("neutral", 1.0)),
  }
  \<close>
  A value that is not a dictionary has no \<open>get\<close>.
\<close>

definition parsed_response :: "(string \<Rightarrow> json option) \<Rightarrow> response \<Rightarrow> json" where
  "parsed_response json_loads r =
     (case r of
        Text s \<Rightarrow> (case json_loads s of None \<Rightarrow> JObj default_sentiment | Some j \<Rightarrow> j)
      | Dumps d \<Rightarrow> JObj (map (\<lambda>(k, v). (k, JNum v)) d)
      | Dict d \<Rightarrow> JObj d
      | Other \<Rightarrow> JObj default_sentiment)"

definition sentiment_of_response ::
  "(string \<Rightarrow> json option) \<Rightarrow> (string \<Rightarrow> real option) \<Rightarrow> response
     \<Rightarrow> error + (string \<times> real) list" where
  "sentiment_of_response json_loads float_of_string r =
     (case parsed_response json_loads r of
        JObj parsed \<Rightarrow>
          (case py_float float_of_string (dict_get parsed ''positive'' (JNum 0)) of
             Inl e \<Rightarrow> Inl e
           | Inr p \<Rightarrow>
               (case py_float float_of_string (dict_get parsed ''negative'' (JNum 0)) of
                  Inl e \<Rightarrow> Inl e
                | Inr n \<Rightarrow>
                    (case py_float float_of_string (dict_get parsed ''neutral'' (JNum 1)) of
                       Inl e \<Rightarrow> Inl e
                     | Inr u \<Rightarrow> Inr [(''positive'', p), (''negative'', n), (''neutral'', u)])))
      | _ \<Rightarrow> Inl AttributeError)"

definition sentiment ::
  "adapter \<Rightarrow> (string \<Rightarrow> json option) \<Rightarrow> (string \<Rightarrow> real option) \<Rightarrow> string list
     \<Rightarrow> error + (string \<times> real) list" where
  "sentiment ad json_loads float_of_string texts =
     (case invoke ad (sentiment_prompt texts) ''sentiment'' of
        Inl e \<Rightarrow> Inl e
      | Inr r \<Rightarrow> sentiment_of_response json_loads float_of_string r)"

text \<open>
  \<open>_build_chat_models(settings)\<close> and \<open>get_llm_adapter\<close>: the primary and the fallback a
  provider selects.
\<close>

definition build_chat_models :: "settings \<Rightarrow> error + (llm \<times> llm option)" where
  "build_chat_models s =
     (case llm_provider s of
        Mock \<Rightarrow> Inr (MockLLM, None)
      | Gemini \<Rightarrow>
          (if \<not> truthy (gemini_api_key s)
           then Inl (ValueError ''GEMINI_API_KEY must be set when LLM_PROVIDER is 'gemini' '')
           else Inr (GeminiProxy, Some (if truthy (openai_api_key s) then ChatOpenAI else MockLLM)))
      | Openai \<Rightarrow>
          (if \<not> truthy (openai_api_key s)
           then Inl (ValueError ''OPENAI_API_KEY must be set when LLM_PROVIDER is 'openai' '')
           else Inr (ChatOpenAI, Some (if truthy (gemini_api_key s) then GeminiProxy else MockLLM)))
      | Local \<Rightarrow> Inl (ValueError ''Unsupported LLM provider''))"

definition get_llm_adapter ::
  "settings \<Rightarrow> int \<Rightarrow> (string \<Rightarrow> error + raw_response)
     \<Rightarrow> (string \<Rightarrow> string \<Rightarrow> error + raw_response) \<Rightarrow> error + adapter" where
  "get_llm_adapter s llm_summary_max_tokens oa ex =
     (case build_chat_models s of
        Inl e \<Rightarrow> Inl e
      | Inr (p, f) \<Rightarrow>
          Inr \<lparr>primary = p, fallback = f, max_tokens = llm_summary_max_tokens,
               openai = oa, via_executor = ex\<rparr>)"

section \<open>processor.py: the pipeline\<close>

text \<open>
  What the processor is built from. \<open>clock k\<close> is the \<open>k\<close>-th reading the processor takes
  of \<open>time.perf_counter()\<close>, in seconds. The adapters, the clusterer and the spike
  detector are not the processor's code: each is the function from its arguments to its
  answer or its exception, and takes the number of clock readings made so far as its first
  argument, so that the same question may get another answer later.
\<close>

record grouping =
  g_cluster_id :: int
  g_indices :: "int list"

text \<open>Modelled from the spec: \<open>ClusteringOutput\<close>, what \<open>Clusterer.cluster\<close> returns
  (clustering.py is not among the sources): the groupings and \<open>duration_ms\<close>, the time the
  clusterer says it took.\<close>

record clustering_output =
  co_clusters :: "grouping list"
  co_duration_ms :: real

record collaborators =
  clock :: "nat \<Rightarrow> real"
  embed :: "nat \<Rightarrow> string list \<Rightarrow> error + real list list"
  cluster :: "nat \<Rightarrow> real list list \<Rightarrow> error + clustering_output"
  llm_summarize :: "nat \<Rightarrow> string list \<Rightarrow> error + string"
  llm_sentiment :: "nat \<Rightarrow> string list \<Rightarrow> error + (string \<times> real) list"
  detect :: "nat \<Rightarrow> string \<Rightarrow> int \<Rightarrow> int \<Rightarrow> error + bool"
  preprocessing_examples :: nat

text \<open>\<open>xs[i]\<close> on a list: a negative index counts from the end, an index out of range
  raises \<open>IndexError\<close>.\<close>

definition py_index :: "'a list \<Rightarrow> int \<Rightarrow> error + 'a" where
  "py_index xs i =
     (if 0 \<le> i \<and> i < int (length xs) then Inr (xs ! nat i)
      else if i < 0 \<and> - i \<le> int (length xs) then Inr (xs ! nat (int (length xs) + i))
      else Inl IndexError)"

text \<open>\<open>[mentions[idx] for idx in grouping.indices]\<close>.\<close>

fun select_mentions :: "mention list \<Rightarrow> int list \<Rightarrow> error + mention list" where
  "select_mentions mentions [] = Inr []"
| "select_mentions mentions (idx # rest) =
     (case py_index mentions idx of
        Inl e \<Rightarrow> Inl e
      | Inr m \<Rightarrow>
          (case select_mentions mentions rest of
             Inl e \<Rightarrow> Inl e
           | Inr ms \<Rightarrow> Inr (m # ms)))"

text \<open>
  The loop of \<open>_analyze_clusters\<close>. \<open>k\<close> counts the clock readings made so far; the
  accumulators are \<open>clusters\<close>, \<open>llm_total_ms\<close> and \<open>spike_total_ms\<close>. Each \<open>+=\<close> adds a
  duration that was itself rounded twice, after the subtraction and after the
  multiplication, and rounds the sum.
  \<^verbatim>\<open>
  for grouping in clustering_output.clusters:
      cluster_mentions = [mentions[idx] for idx in grouping.indices]
      texts = [mention.text for mention in cluster_mentions]
      examples = [mention.text for mention in
                  cluster_mentions[: self._settings.preprocessing_examples]]
      cluster_start = time.perf_counter()
      summary = await self._llm_adapter.summarize(texts)
      sentiment = await self._llm_adapter.sentiment(texts)
      llm_total_ms += (time.perf_counter() - cluster_start) * 1000
      spike_start = time.perf_counter()
      spike_result = await self._spike_detector.detect(brand, grouping.cluster_id,
                                                       len(cluster_mentions))
      spike_total_ms += (time.perf_counter() - spike_start) * 1000
      clusters.append(ClusterResult(...))
  \<close>
\<close>

fun analyze_loop ::
  "collaborators \<Rightarrow> string \<Rightarrow> mention list \<Rightarrow> grouping list \<Rightarrow> nat
     \<Rightarrow> cluster_result list \<Rightarrow> real \<Rightarrow> real
     \<Rightarrow> error + (cluster_result list \<times> real \<times> real \<times> nat)" where
  "analyze_loop co brand mentions [] k clusters llm_total_ms spike_total_ms =
     Inr (clusters, llm_total_ms, spike_total_ms, k)"
| "analyze_loop co brand mentions (g # gs) k clusters llm_total_ms spike_total_ms =
     (case select_mentions mentions (g_indices g) of
        Inl e \<Rightarrow> Inl e
      | Inr cluster_mentions \<Rightarrow>
          (let texts = map m_text cluster_mentions;
               examples = map m_text (take (preprocessing_examples co) cluster_mentions)
           in case llm_summarize co (Suc k) texts of
                Inl e \<Rightarrow> Inl e
              | Inr summ \<Rightarrow>
                  (case llm_sentiment co (Suc k) texts of
                     Inl e \<Rightarrow> Inl e
                   | Inr sent \<Rightarrow>
                       (let llm' = double (llm_total_ms
                                     + double (double (clock co (k + 1) - clock co k) * 1000))
                        in case detect co (k + 3) brand (g_cluster_id g)
                                  (int (length cluster_mentions)) of
                             Inl e \<Rightarrow> Inl e
                           | Inr is_spike \<Rightarrow>
                               analyze_loop co brand mentions gs (k + 4)
                                 (clusters @
                                   [\<lparr>cr_cluster_id = g_cluster_id g,
                                     cr_count = int (length cluster_mentions),
                                     cr_examples = examples,
                                     cr_summary = Some summ,
                                     cr_spike = is_spike,
                                     cr_sentiment = sent,
                                     cr_topics = None\<rparr>])
                                 llm'
                                 (double (spike_total_ms
                                    + double (double (clock co (k + 3) - clock co (k + 2))
                                                * 1000)))))))"

text \<open>\<open>int(x)\<close> on a float: towards zero.\<close>

definition py_int :: "real \<Rightarrow> int" where
  "py_int x = (if x \<ge> 0 then \<lfloor>x\<rfloor> else \<lceil>x\<rceil>)"

text \<open>
  \<open>process_chunk(chunk, fetch_time_ms=...)\<close>, started when \<open>k0\<close> readings of the clock
  have been made. The readings are, in order: \<open>total_start\<close>; the two of \<open>_preprocess\<close>;
  then either the last one (no mention left), or the two of \<open>_generate_embeddings\<close>,
  four for each grouping and the last one. The processor reads no clock around the
  clusterer: \<open>clustering_time_ms\<close> is the \<open>duration_ms\<close> of the clusterer's answer, copied.
  A duration is \<open>(time.perf_counter() - start) * 1000\<close>, rounded after the subtraction
  and after the multiplication.
  \<^verbatim>\<open>
  metrics = ChunkMetrics(io_time_ms=fetch_time_ms)
  total_start = time.perf_counter()
  with self._llm_adapter.context(brand=chunk.brand, chunk_id=chunk.chunk_id):
      mentions = self._preprocess(chunk, metrics)
      if not mentions:
          processing_ms = (time.perf_counter() - total_start) * 1000
          metrics.total_task_time_ms = processing_ms + metrics.io_time_ms
          return ChunkResult(chunk_id=chunk.chunk_id, brand=chunk.brand,
              timestamp=int(chunk.created_at.timestamp()), clusters=[], metrics=metrics)
      embeddings, embed_duration = await self._generate_embeddings(chunk, mentions)
      metrics.embedding_time_ms = embed_duration
      clustering_output = await self._perform_clustering(chunk, embeddings)
      metrics.clustering_time_ms = clustering_output.duration_ms
      clusters = await self._analyze_clusters(chunk, mentions, clustering_output, metrics)
  processing_ms = (time.perf_counter() - total_start) * 1000
  metrics.total_task_time_ms = processing_ms + metrics.io_time_ms
  ...
  return ChunkResult(chunk_id=chunk.chunk_id, brand=chunk.brand,
      timestamp=int(chunk.created_at.timestamp()), clusters=clusters, metrics=metrics)
  \<close>
\<close>

definition process_chunk :: "collaborators \<Rightarrow> nat \<Rightarrow> chunk \<Rightarrow> real \<Rightarrow> error + chunk_result" where
  "process_chunk co k0 ch fetch_time_ms =
     (let metrics = \<lparr>preprocessing_time_ms = 0, embedding_time_ms = 0, clustering_time_ms = 0,
                      llm_time_ms = 0, spike_detection_time_ms = 0, io_time_ms = fetch_time_ms,
                      total_task_time_ms = 0\<rparr>;
          total_start = clock co k0;
          mentions = preprocess (c_mentions ch);
          metrics = metrics\<lparr>preprocessing_time_ms :=
                      double (double (clock co (k0 + 2) - clock co (k0 + 1)) * 1000)\<rparr>
      in if mentions = []
         then Inr \<lparr>r_chunk_id = c_chunk_id ch, r_brand = c_brand ch,
                   r_timestamp = py_int (c_created_at ch), r_clusters = [],
                   r_metrics = metrics\<lparr>total_task_time_ms :=
                     double (double (double (clock co (k0 + 3) - total_start) * 1000)
                               + io_time_ms metrics)\<rparr>\<rparr>
         else (case embed co (k0 + 4) (map m_text mentions) of
                 Inl e \<Rightarrow> Inl e
               | Inr embeddings \<Rightarrow>
                   (let metrics = metrics\<lparr>embedding_time_ms :=
                          double (double (clock co (k0 + 4) - clock co (k0 + 3)) * 1000)\<rparr>
                    in case cluster co (k0 + 5) embeddings of
                         Inl e \<Rightarrow> Inl e
                       | Inr clustering_output \<Rightarrow>
                           (let metrics = metrics\<lparr>clustering_time_ms :=
                                  co_duration_ms clustering_output\<rparr>
                            in case analyze_loop co (c_brand ch) mentions
                                      (co_clusters clustering_output) (k0 + 5) [] 0 0 of
                                 Inl e \<Rightarrow> Inl e
                               | Inr (clusters, llm_total_ms, spike_total_ms, k) \<Rightarrow>
                                   (let metrics = metrics\<lparr>llm_time_ms := llm_total_ms,
                                          spike_detection_time_ms := spike_total_ms\<rparr>
                                    in Inr \<lparr>r_chunk_id = c_chunk_id ch, r_brand = c_brand ch,
                                             r_timestamp = py_int (c_created_at ch),
                                             r_clusters = clusters,
                                             r_metrics = metrics\<lparr>total_task_time_ms :=
                                               double (double (double (clock co k - total_start)
                                                                 * 1000)
                                                         + io_time_ms metrics)\<rparr>\<rparr>)))))"

section \<open>storage.py\<close>

record cluster_payload =
  cp_id :: string
  cp_label :: string
  cp_mentions :: "string list"
  cp_sentimentScore :: real
  cp_spike :: bool
  cp_mentionCount :: int

record orchestrator_payload =
  o_chunkId :: string
  o_brand :: string
  o_processedAt :: string
  o_sentiment :: "(string \<times> real) list"
  o_clusters :: "cluster_payload list"
  o_topics :: "string list"
  o_summary :: string
  o_spikeDetected :: bool
  o_meta_metrics :: chunk_metrics
  o_meta_mentionCount :: int

text \<open>
  \<^verbatim>\<open>
  def _normalize_summary_text(self, summary, examples, *, fallback_label=None) -> str:
      candidate = (summary or "").strip()
      if candidate.startswith("{") and candidate.endswith("}") \
              and "positive" in candidate and "negative" in candidate:
          candidate = ""
      if not candidate and examples:
          candidate = examples[0].strip()
      if not candidate and fallback_label:
          candidate = fallback_label
      return candidate
  \<close>
\<close>

definition normalize_summary_text :: "string option \<Rightarrow> string list \<Rightarrow> string option \<Rightarrow> string" where
  "normalize_summary_text summ examples fallback_label =
     (let candidate = strip (case summ of None \<Rightarrow> [] | Some t \<Rightarrow> t);
          candidate = (if prefix ''{'' candidate \<and> suffix ''}'' candidate
                          \<and> contains candidate ''positive'' \<and> contains candidate ''negative''
                       then [] else candidate);
          candidate = (if candidate = [] \<and> examples \<noteq> [] then strip (hd examples) else candidate)
      in if candidate = [] \<and> truthy fallback_label then the fallback_label else candidate)"

definition build_clusters :: "cluster_result list \<Rightarrow> cluster_payload list" where
  "build_clusters cs =
     map (\<lambda>c. \<lparr>cp_id = show_int (cr_cluster_id c),
               cp_label = normalize_summary_text (cr_summary c) (cr_examples c)
                            (Some (''Cluster '' @ show_int (cr_cluster_id c))),
               cp_mentions = cr_examples c,
               cp_sentimentScore = double (dict_get (cr_sentiment c) ''positive'' 0
                                             - dict_get (cr_sentiment c) ''negative'' 0),
               cp_spike = cr_spike c,
               cp_mentionCount = cr_count c\<rparr>) cs"

text \<open>The loop of \<open>_aggregate_sentiment\<close>: the sums of the three scores over the clusters
  whose sentiment is not empty, and their number.\<close>

fun sentiment_totals ::
  "cluster_result list \<Rightarrow> real \<times> real \<times> real \<times> nat \<Rightarrow> real \<times> real \<times> real \<times> nat" where
  "sentiment_totals [] acc = acc"
| "sentiment_totals (c # cs) (p, u, n, counted) =
     (if cr_sentiment c = [] then sentiment_totals cs (p, u, n, counted)
      else sentiment_totals cs
             (double (p + dict_get (cr_sentiment c) ''positive'' 0),
              double (u + dict_get (cr_sentiment c) ''neutral'' 0),
              double (n + dict_get (cr_sentiment c) ''negative'' 0),
              Suc counted))"

definition aggregate_sentiment :: "cluster_result list \<Rightarrow> (string \<times> real) list" where
  "aggregate_sentiment cs =
     (case sentiment_totals cs (0, 0, 0, 0) of
        (p, u, n, counted) \<Rightarrow>
          (let p' = (if counted > 0 then double (p / real counted) else p);
               u' = (if counted > 0 then double (u / real counted) else u);
               n' = (if counted > 0 then double (n / real counted) else n)
           in [(''positive'', p'), (''neutral'', u'), (''negative'', n'),
               (''score'', double (p' - n'))]))"

fun collect_topics :: "cluster_result list \<Rightarrow> string list" where
  "collect_topics [] = []"
| "collect_topics (c # cs) =
     (let normalized = normalize_summary_text (cr_summary c) (cr_examples c) None
      in if normalized \<noteq> [] then normalized # collect_topics cs
         else if cr_examples c \<noteq> [] then take 1 (cr_examples c) @ collect_topics cs
         else collect_topics cs)"

definition extract_topics :: "cluster_result list \<Rightarrow> string list" where
  "extract_topics cs = take 10 (map strip (filter (\<lambda>t. strip t \<noteq> []) (collect_topics cs)))"

definition combine_summaries :: "cluster_result list \<Rightarrow> string" where
  "combine_summaries cs =
     join_char CHR '' ''
       (filter (\<lambda>l. l \<noteq> [])
          (map (\<lambda>c. normalize_summary_text (cr_summary c) (cr_examples c) None) cs))"

text \<open>\<open>_format_for_orchestrator(result)\<close>; \<open>now\<close> is
  \<open>datetime.now(timezone.utc).isoformat()\<close>. \<open>meta.metrics\<close> is \<open>result.metrics.model_dump()\<close>,
  the metrics as they stand when the payload is built.\<close>

definition format_for_orchestrator :: "string \<Rightarrow> chunk_result \<Rightarrow> orchestrator_payload" where
  "format_for_orchestrator now result =
     (let clusters_payload = build_clusters (r_clusters result)
      in \<lparr>o_chunkId = r_chunk_id result,
          o_brand = r_brand result,
          o_processedAt = now,
          o_sentiment = aggregate_sentiment (r_clusters result),
          o_clusters = clusters_payload,
          o_topics = extract_topics (r_clusters result),
          o_summary = combine_summaries (r_clusters result),
          o_spikeDetected = list_ex cp_spike clusters_payload,
          o_meta_metrics = r_metrics result,
          o_meta_mentionCount = sum_list (map cp_mentionCount clusters_payload)\<rparr>)"

text \<open>
  The store and the counters. Every list of the store is only appended to, so the store is
  kept as the sequence of the appends made, each with its key; an item is the value a JSON
  text encodes. A counter is kept as the sequence of the label tuples it was incremented
  under.
\<close>

datatype item = ResultItem orchestrator_payload | FailureItem failure_record

record world =
  rpushed :: "(string \<times> item) list"
  chunks_failed_total :: "(string \<times> string \<times> string) list"
  chunks_processed_total :: "(string \<times> string) list"

text \<open>
  What the worker service is built from. \<open>safe_json_loads\<close> gives \<open>None\<close> when it raises
  \<open>ValueError\<close>, \<open>model_validate\<close> when \<open>Chunk.model_validate\<close> raises. \<open>rpush_ok key\<close> tells
  whether an append to \<open>key\<close> succeeds (after the client's retries); the two times are
  the readings of \<open>timer()\<close> around the appends.
\<close>

record services =
  s_worker_id :: string
  redis_result_prefix :: string
  redis_failed_prefix :: string
  safe_json_loads :: "string \<Rightarrow> json option"
  model_validate :: "json \<Rightarrow> chunk option"
  rpush_ok :: "string \<Rightarrow> bool"
  push_time_ms :: real
  failure_time_ms :: real
  utc_now :: string
  pipeline :: collaborators

text \<open>
  \<^verbatim>\<open>
  async def push_result(self, brand: str, result: ChunkResult) -> float:
      key = f"{self._settings.redis_result_prefix}:{brand}:chunks"
      payload = json.dumps(self._format_for_orchestrator(result))
      with timer() as timing:
          await self._redis.rpush(key, payload)
      elapsed_ms = timing["elapsed_ms"]
      ...
      return elapsed_ms
  \<close>
\<close>

definition push_result :: "services \<Rightarrow> world \<Rightarrow> string \<Rightarrow> chunk_result \<Rightarrow> (error + real) \<times> world" where
  "push_result sv w brand result =
     (let key = redis_result_prefix sv @ '':'' @ brand @ '':chunks'';
          payload = format_for_orchestrator (utc_now sv) result
      in if rpush_ok sv key
         then (Inr (push_time_ms sv), w\<lparr>rpushed := rpushed w @ [(key, ResultItem payload)]\<rparr>)
         else (Inl RedisError, w))"

text \<open>
  \<^verbatim>\<open>
  async def record_failure(self, brand: str, failure: FailureRecord, *, reason_label: str) -> float:
      key = f"{self._settings.redis_failed_prefix}:{brand}"
      payload = failure.model_dump_json()
      with timer() as timing:
          await self._redis.record_failure(key, payload)
      elapsed_ms = timing["elapsed_ms"]
      worker_chunks_failed_total.labels(self._worker_id, brand, reason_label).inc()
      ...
      return elapsed_ms
  \<close>
\<close>

definition storage_record_failure ::
  "services \<Rightarrow> world \<Rightarrow> string \<Rightarrow> failure_record \<Rightarrow> string \<Rightarrow> (error + real) \<times> world" where
  "storage_record_failure sv w brand failure reason_label =
     (let key = redis_failed_prefix sv @ '':'' @ brand
      in if rpush_ok sv key
         then (Inr (failure_time_ms sv),
               w\<lparr>rpushed := rpushed w @ [(key, FailureItem failure)],
                 chunks_failed_total :=
                   chunks_failed_total w @ [(s_worker_id sv, brand, reason_label)]\<rparr>)
         else (Inl RedisError, w))"

section \<open>app.py\<close>

text \<open>
  \<open>WorkerService._record_failure\<close>. \<open>chunk_id\<close> is the value the caller passes: the
  validation branch passes whatever the raw object holds under \<open>chunkId\<close>. The model
  \<open>FailureRecord\<close> declares \<open>chunk_id: str\<close>, and pydantic refuses any other JSON value
  with a \<open>ValidationError\<close>, before anything is stored.
  \<^verbatim>\<open>
  failure = FailureRecord(worker_id=self._worker_id, brand=brand, chunk_id=chunk_id,
                          reason=message, payload=payload)
  await self._storage.record_failure(brand, failure, reason_label=reason_key)
  \<close>
\<close>

definition record_failure ::
  "services \<Rightarrow> world \<Rightarrow> string \<Rightarrow> string \<Rightarrow> string \<Rightarrow> string \<Rightarrow> json \<Rightarrow> (error + real) \<times> world" where
  "record_failure sv w brand reason_key message payload chunk_id =
     (case chunk_id of
        JStr cid \<Rightarrow>
          storage_record_failure sv w brand
            \<lparr>f_worker_id = s_worker_id sv, f_brand = brand, f_chunk_id = cid,
             f_reason = message, f_payload = payload\<rparr>
            reason_key
      | _ \<Rightarrow> (Inl ValidationError, w))"

text \<open>How \<open>_handle_payload\<close> ends: with the result it pushed, as the object stands when
  the method returns; after a failure record; or with an exception it lets through.\<close>

datatype outcome = Processed chunk_result | DeadLettered | Raised error

definition after_failure :: "(error + real) \<times> world \<Rightarrow> outcome \<times> world" where
  "after_failure rw = (case rw of (Inl e, w) \<Rightarrow> (Raised e, w) | (Inr t, w) \<Rightarrow> (DeadLettered, w))"

text \<open>
  \<^verbatim>\<open>
  async def _handle_payload(self, queue_key: str, payload: str, fetch_time_ms: float) -> None:
      brand_hint = extract_brand_from_queue(queue_key)
      try:
          raw_data = safe_json_loads(payload)
      except ValueError as exc:
          await self._record_failure(brand_hint, "json_decode", "Invalid JSON", payload, str(exc))
          return
      try:
          chunk = Chunk.model_validate(raw_data)
      except Exception as exc:
          chunk_id = raw_data.get("chunkId", "unknown") if isinstance(raw_data, dict) else "unknown"
          await self._record_failure(brand_hint, "validation", "Validation failed", payload,
                                     str(exc), chunk_id=chunk_id)
          return
      chunk_brand = chunk.brand or brand_hint
      try:
          result = await self._processor.process_chunk(chunk, fetch_time_ms=fetch_time_ms)
          push_time_ms = await self._storage.push_result(chunk_brand, result)
          result.metrics.io_time_ms += push_time_ms
          worker_processing_time_seconds.labels(...).observe(result.metrics.total_task_time_ms / 1000)
          worker_chunks_processed_total.labels(self._worker_id, chunk_brand).inc()
      except Exception as exc:
          await self._record_failure(chunk_brand, "processing", "Processing failed", payload,
                                     str(exc), chunk_id=chunk.chunk_id)
  \<close>
  \<open>k0\<close> is the number of clock readings the processor has made before.
\<close>

definition handle_payload ::
  "services \<Rightarrow> world \<Rightarrow> nat \<Rightarrow> string \<Rightarrow> string \<Rightarrow> real \<Rightarrow> outcome \<times> world" where
  "handle_payload sv w k0 queue_key payload fetch_time_ms =
     (let brand_hint = extract_brand_from_queue queue_key
      in case safe_json_loads sv payload of
           None \<Rightarrow>
             after_failure
               (record_failure sv w brand_hint ''json_decode'' ''Invalid JSON'' payload
                  (JStr ''unknown''))
         | Some raw_data \<Rightarrow>
             (case model_validate sv raw_data of
                None \<Rightarrow>
                  (let chunk_id = (case raw_data of
                                     JObj d \<Rightarrow> dict_get d ''chunkId'' (JStr ''unknown'')
                                   | _ \<Rightarrow> JStr ''unknown'')
                   in after_failure
                        (record_failure sv w brand_hint ''validation'' ''Validation failed''
                           payload chunk_id))
              | Some ch \<Rightarrow>
                  (let chunk_brand = (if c_brand ch \<noteq> [] then c_brand ch else brand_hint)
                   in case process_chunk (pipeline sv) k0 ch fetch_time_ms of
                        Inl e \<Rightarrow>
                          after_failure
                            (record_failure sv w chunk_brand ''processing'' ''Processing failed''
                               payload (JStr (c_chunk_id ch)))
                      | Inr result \<Rightarrow>
                          (case push_result sv w chunk_brand result of
                             (Inl e, w') \<Rightarrow>
                               after_failure
                                 (record_failure sv w' chunk_brand ''processing''
                                    ''Processing failed'' payload (JStr (c_chunk_id ch)))
                           | (Inr push_ms, w') \<Rightarrow>
                               (Processed
                                  (result\<lparr>r_metrics := (r_metrics result)
                                     \<lparr>io_time_ms :=
                                        double (io_time_ms (r_metrics result) + push_ms)\<rparr>\<rparr>),
                                w'\<lparr>chunks_processed_total :=
                                     chunks_processed_total w' @ [(s_worker_id sv, chunk_brand)]\<rparr>)))))"

text \<open>The appends of each kind that a run added to the store.\<close>

definition is_result :: "string \<times> item \<Rightarrow> bool" where
  "is_result ki = (case snd ki of ResultItem p \<Rightarrow> True | FailureItem f \<Rightarrow> False)"

definition results_appended :: "world \<Rightarrow> world \<Rightarrow> nat" where
  "results_appended w w' = length (filter is_result (drop (length (rpushed w)) (rpushed w')))"

definition failures_appended :: "world \<Rightarrow> world \<Rightarrow> nat" where
  "failures_appended w w' =
     length (filter (\<lambda>ki. \<not> is_result ki) (drop (length (rpushed w)) (rpushed w')))"

section \<open>Concrete runs\<close>

text \<open>
  Settings, collaborators and payloads at which the definitions are evaluated below. The
  queue key and the prefixes are those of the specification's scenarios; the chunk is the
  one of its first scenario.
\<close>

definition demo_settings :: settings where
  "demo_settings =
     \<lparr>worker_id = None, embeddings_provider = Local, llm_provider = Gemini,
      embedding_api_key = None, gemini_api_key = Some ''k'', openai_api_key = None,
      llm_min_delay_sec = 2, llm_max_concurrency = 4, generated_worker_id = None\<rparr>"

definition fresh_executor :: executor where
  "fresh_executor =
     \<lparr>chat_model = None, embeddings_model = None, semaphore = None, min_delay = 0\<rparr>"

definition demo_client :: "chain \<Rightarrow> string \<Rightarrow> nat \<Rightarrow> error + string" where
  "demo_client c variables timeout = Inr ''ok''"

definition demo_chunk :: chunk where
  "demo_chunk =
     \<lparr>c_brand = ''acme'', c_chunk_id = ''c1'', c_created_at = 1704067200,
      c_mentions =
        [\<lparr>m_id = ''m1'', m_source = ''tw'', m_text = ''Great product!'', m_created_at = 1704067200,
          m_sentiment = None, m_metadata = None\<rparr>,
         \<lparr>m_id = ''m2'', m_source = ''tw'', m_text = ''great product!'', m_created_at = 1704067201,
          m_sentiment = None, m_metadata = None\<rparr>,
         \<lparr>m_id = ''m3'', m_source = ''tw'', m_text = ''Terrible bug'', m_created_at = 1704067202,
          m_sentiment = None, m_metadata = None\<rparr>],
      c_meta = None\<rparr>"

definition demo_pipeline :: collaborators where
  "demo_pipeline =
     \<lparr>clock = (\<lambda>k. real k / 8),
      embed = (\<lambda>k texts. Inr (map (\<lambda>t. [0, 1]) texts)),
      cluster = (\<lambda>k embeddings.
                   Inr \<lparr>co_clusters = [\<lparr>g_cluster_id = 0, g_indices = [0]\<rparr>,
                                        \<lparr>g_cluster_id = 1, g_indices = [1]\<rparr>],
                        co_duration_ms = 100\<rparr>),
      llm_summarize = (\<lambda>k texts. Inr ''overview''),
      llm_sentiment = (\<lambda>k texts. Inr [(''positive'', 1), (''negative'', 0), (''neutral'', 0)]),
      detect = (\<lambda>k brand cid n. Inr False),
      preprocessing_examples = 3\<rparr>"

definition demo_services :: services where
  \<open>demo_services =
     \<lparr>s_worker_id = ''worker-1'',
      redis_result_prefix = ''r'',
      redis_failed_prefix = ''f'',
      safe_json_loads = (\<lambda>p. if p = ''{not json'' then None
                              else if p = ''{"chunkId": 5}'' then Some (JObj [(''chunkId'', JNum 5)])
                              else Some (JObj [])),
      model_validate = (\<lambda>j. if j = JObj [] then Some demo_chunk else None),
      rpush_ok = (\<lambda>key. True),
      push_time_ms = 40,
      failure_time_ms = 1,
      utc_now = ''2024-01-01T00:00:05+00:00'',
      pipeline = demo_pipeline\<rparr>\<close>

definition empty_world :: world where
  "empty_world = \<lparr>rpushed = [], chunks_failed_total = [], chunks_processed_total = []\<rparr>"

definition mock_settings :: settings where
  "mock_settings =
     \<lparr>worker_id = None, embeddings_provider = Local, llm_provider = Mock,
      embedding_api_key = None, gemini_api_key = None, openai_api_key = None,
      llm_min_delay_sec = 2, llm_max_concurrency = 4, generated_worker_id = None\<rparr>"

definition no_remote :: "string \<Rightarrow> error + raw_response" where
  "no_remote prompt = Inl (ClientError ''unreachable'')"

definition mock_adapter :: adapter where
  "mock_adapter =
     \<lparr>primary = MockLLM, fallback = None, max_tokens = 64,
      openai = no_remote, via_executor = (\<lambda>prompt operation. no_remote prompt)\<rparr>"

definition list_answer :: adapter where
  "list_answer =
     \<lparr>primary = ChatOpenAI, fallback = Some MockLLM, max_tokens = 64,
      openai = (\<lambda>prompt. Inr (Message (Text ''[]''))),
      via_executor = (\<lambda>prompt operation. no_remote prompt)\<rparr>"

definition demo_json_loads :: "string \<Rightarrow> json option" where
  "demo_json_loads s = (if s = ''[]'' then Some (JArr []) else None)"



text \<open>What the run of the first scenario's chunk leaves behind: the result as
  \<open>process_chunk\<close> returns it, the payload pushed, the store, and the result object when
  \<open>_handle_payload\<close> returns.\<close>

definition demo_metrics :: chunk_metrics where
  "demo_metrics =
     \<lparr>preprocessing_time_ms = 125, embedding_time_ms = 125, clustering_time_ms = 100,
      llm_time_ms = 250, spike_detection_time_ms = 250, io_time_ms = 5,
      total_task_time_ms = 1630\<rparr>"

definition demo_result :: chunk_result where
  "demo_result =
     \<lparr>r_chunk_id = ''c1'', r_brand = ''acme'', r_timestamp = 1704067200,
      r_clusters =
        [\<lparr>cr_cluster_id = 0, cr_count = 1, cr_examples = [''great product!''],
          cr_summary = Some ''overview'', cr_spike = False,
          cr_sentiment = [(''positive'', 1), (''negative'', 0), (''neutral'', 0)],
          cr_topics = None\<rparr>,
         \<lparr>cr_cluster_id = 1, cr_count = 1, cr_examples = [''terrible bug''],
          cr_summary = Some ''overview'', cr_spike = False,
          cr_sentiment = [(''positive'', 1), (''negative'', 0), (''neutral'', 0)],
          cr_topics = None\<rparr>],
      r_metrics = demo_metrics\<rparr>"

definition demo_payload :: orchestrator_payload where
  "demo_payload =
     \<lparr>o_chunkId = ''c1'', o_brand = ''acme'', o_processedAt = ''2024-01-01T00:00:05+00:00'',
      o_sentiment = [(''positive'', 1), (''neutral'', 0), (''negative'', 0), (''score'', 1)],
      o_clusters =
        [\<lparr>cp_id = ''0'', cp_label = ''overview'', cp_mentions = [''great product!''],
          cp_sentimentScore = 1, cp_spike = False, cp_mentionCount = 1\<rparr>,
         \<lparr>cp_id = ''1'', cp_label = ''overview'', cp_mentions = [''terrible bug''],
          cp_sentimentScore = 1, cp_spike = False, cp_mentionCount = 1\<rparr>],
      o_topics = [''overview'', ''overview''],
      o_summary = ''overview overview'',
      o_spikeDetected = False,
      o_meta_metrics = demo_metrics,
      o_meta_mentionCount = 2\<rparr>"

definition demo_world :: world where
  "demo_world =
     \<lparr>rpushed = [(''r:acme:chunks'', ResultItem demo_payload)],
      chunks_failed_total = [],
      chunks_processed_total = [(''worker-1'', ''acme'')]\<rparr>"

definition demo_final :: chunk_result where
  "demo_final = demo_result\<lparr>r_metrics := demo_metrics\<lparr>io_time_ms := 45\<rparr>\<rparr>"

text \<open>
  Services for two more runs of the same chunk. The clock stands at 0 until reading \<open>j\<close>,
  at the double nearest to 0.001 for the four readings from \<open>j\<close> on, and at the double
  nearest to 0.01 after them; the clusterer reports 0 ms. With \<open>j = 6\<close> the steps fall
  between the readings around the llm calls of the two groupings, with \<open>j = 8\<close> between
  those around the spike detection. The metrics are those the two runs end with.
\<close>

definition rounding_clock :: "nat \<Rightarrow> nat \<Rightarrow> real" where
  "rounding_clock j k =
     (if k < j then 0 else if k < j + 4 then double (1 / 1000) else double (10 / 1000))"




section \<open>The settled worker identifier\<close>


section \<open>Results about floats\<close>

text \<open>\<open>expo\<close> is the binary exponent, and \<open>rne\<close> is monotone and leaves integers alone.
  So rounding to a double is monotone, leaves doubles as they are, and keeps the sign.\<close>

lemma expo_bounds:
  assumes "0 < x"
  shows "2 powi expo x \<le> x \<and> x < 2 powi (expo x + 1)"
proof (cases "1 \<le> x")
  case True
  let ?n = "\<lfloor>x\<rfloor>"
  from True have n: "0 < ?n" by simp
  from bitlen_bounds [OF n] have b: "2 ^ nat (bitlen ?n - 1) \<le> ?n" "?n < 2 ^ nat (bitlen ?n)"
    by simp_all
  from n have bl: "1 \<le> bitlen ?n" by (simp add: bitlen_alt_def)
  have e: "expo x = bitlen ?n - 1" using True by (simp add: expo_def)
  have p1: "(2::real) powi (bitlen ?n - 1) = 2 ^ nat (bitlen ?n - 1)"
    using bl by (simp add: power_int_def)
  have p2: "(2::real) powi (bitlen ?n) = 2 ^ nat (bitlen ?n)"
    using bl by (simp add: power_int_def)
  from b(1) have "real_of_int (2 ^ nat (bitlen ?n - 1)) \<le> real_of_int ?n" by linarith
  moreover have "real_of_int ?n \<le> x" by (rule of_int_floor_le)
  ultimately have "real_of_int (2 ^ nat (bitlen ?n - 1)) \<le> x" by linarith
  then have lo: "(2::real) ^ nat (bitlen ?n - 1) \<le> x" by (simp only: of_int_power of_int_numeral)
  from b(2) have "?n + 1 \<le> 2 ^ nat (bitlen ?n)" by simp
  then have "real_of_int (?n + 1) \<le> real_of_int (2 ^ nat (bitlen ?n))" by linarith
  moreover have "x < real_of_int (?n + 1)" by simp
  ultimately have "x < real_of_int (2 ^ nat (bitlen ?n))" by linarith
  then have hi: "x < 2 ^ nat (bitlen ?n)" by (simp only: of_int_power of_int_numeral)
  from lo hi show ?thesis by (simp add: e p1 p2)
next
  case False
  let ?y = "1 / x"
  let ?m = "\<lceil>?y\<rceil> - 1"
  from False assms have y: "1 < ?y" by simp
  then have m: "0 < ?m" by simp
  from bitlen_bounds [OF m] have b: "2 ^ nat (bitlen ?m - 1) \<le> ?m" "?m < 2 ^ nat (bitlen ?m)"
    by simp_all
  from m have bl: "1 \<le> bitlen ?m" by (simp add: bitlen_alt_def)
  have e: "expo x = - bitlen ?m" using False by (simp add: expo_def)
  have my: "real_of_int ?m < ?y" "?y \<le> real_of_int ?m + 1" by linarith+
  from b(1) have "real_of_int (2 ^ nat (bitlen ?m - 1)) \<le> real_of_int ?m" by linarith
  with my(1) have "real_of_int (2 ^ nat (bitlen ?m - 1)) < ?y" by linarith
  then have lo: "(2::real) ^ nat (bitlen ?m - 1) < ?y" by (simp only: of_int_power of_int_numeral)
  from b(2) have "?m + 1 \<le> 2 ^ nat (bitlen ?m)" by simp
  then have "real_of_int (?m + 1) \<le> real_of_int (2 ^ nat (bitlen ?m))" by linarith
  moreover from my(2) have "?y \<le> real_of_int (?m + 1)" by simp
  ultimately have "?y \<le> real_of_int (2 ^ nat (bitlen ?m))" by linarith
  then have hi: "?y \<le> 2 ^ nat (bitlen ?m)" by (simp only: of_int_power of_int_numeral)
  have p1: "(2::real) powi (- bitlen ?m) = 1 / 2 ^ nat (bitlen ?m)"
    using bl by (simp add: power_int_def field_simps)
  have p2: "(2::real) powi (- bitlen ?m + 1) = 1 / 2 ^ nat (bitlen ?m - 1)"
  proof -
    have "- bitlen ?m + 1 = - (bitlen ?m - 1)" by simp
    then have "(2::real) powi (- bitlen ?m + 1) = 2 powi (- (bitlen ?m - 1))" by simp
    also have "\<dots> = inverse (2 powi (bitlen ?m - 1))" by (rule power_int_minus)
    also have "(2::real) powi (bitlen ?m - 1) = 2 ^ nat (bitlen ?m - 1)"
      using bl by (simp add: power_int_def)
    finally show ?thesis by (simp add: field_simps)
  qed
  from hi assms have a: "1 / 2 ^ nat (bitlen ?m) \<le> x"
    by (simp add: field_simps)
  from lo assms have c: "x < 1 / 2 ^ nat (bitlen ?m - 1)"
    by (simp add: field_simps)
  from a c show ?thesis unfolding e p1 p2 by simp
qed


lemma expo_mono:
  assumes "0 < x" "x \<le> y"
  shows "expo x \<le> expo y"
proof (rule ccontr)
  assume "\<not> expo x \<le> expo y"
  then have "expo y + 1 \<le> expo x" by simp
  then have "(2::real) powi (expo y + 1) \<le> 2 powi expo x" by (intro power_int_increasing) simp_all
  moreover from assms have "0 < y" by simp
  from expo_bounds [OF this] expo_bounds [OF assms(1)] assms(2)
  have "2 powi expo x < (2::real) powi (expo y + 1)" by linarith
  ultimately show False by linarith
qed

lemma rne_of_int: "rne (of_int n) = n"
  by (simp add: rne_def)

lemma rne_near: "real_of_int (rne y) - 1 / 2 \<le> y \<and> y \<le> real_of_int (rne y) + 1 / 2"
  unfolding rne_def Let_def by (auto; linarith)

lemma rne_floor_ceiling: "\<lfloor>y\<rfloor> \<le> rne y \<and> rne y \<le> \<lfloor>y\<rfloor> + 1"
  unfolding rne_def Let_def by auto

lemma rne_mono:
  assumes "a \<le> b"
  shows "rne a \<le> rne b"
proof (cases "\<lfloor>a\<rfloor> = \<lfloor>b\<rfloor>")
  case True
  with assms show ?thesis unfolding rne_def Let_def by auto
next
  case False
  with assms have lt: "\<lfloor>a\<rfloor> + 1 \<le> \<lfloor>b\<rfloor>" using floor_mono [OF assms] by linarith
  from rne_floor_ceiling [of a] rne_floor_ceiling [of b] lt show ?thesis by linarith
qed

lemma rne_ge_int: "real_of_int n \<le> y \<Longrightarrow> n \<le> rne y"
  using rne_mono [of "of_int n" y] by (simp add: rne_of_int)

lemma rne_le_int: "y \<le> real_of_int n \<Longrightarrow> rne y \<le> n"
  using rne_mono [of y "of_int n"] by (simp add: rne_of_int)


lemma powi_split52: "(2::real) powi e = 2 ^ 52 * 2 powi (e - 52)"
proof -
  have "(2::real) powi (52 + (e - 52)) = 2 powi 52 * 2 powi (e - 52)"
    by (rule power_int_add) simp
  then show ?thesis by simp
qed

lemma powi_split53: "(2::real) powi (e + 1) = 2 ^ 53 * 2 powi (e - 52)"
proof -
  have "(2::real) powi (53 + (e - 52)) = 2 powi 53 * 2 powi (e - 52)"
    by (rule power_int_add) simp
  moreover have "53 + (e - 52) = e + 1" by simp
  ultimately show ?thesis by simp
qed

lemma scaled_bounds:
  assumes "0 < x"
  shows "2 ^ 52 \<le> x / 2 powi (expo x - 52) \<and> x / 2 powi (expo x - 52) < 2 ^ 53"
proof -
  let ?s = "(2::real) powi (expo x - 52)"
  have s: "0 < ?s" by (simp add: zero_less_power_int)
  have lo: "2 powi expo x = 2 ^ 52 * ?s"
    by (rule powi_split52)
  have hi: "2 powi (expo x + 1) = 2 ^ 53 * ?s"
    by (rule powi_split53)
  from expo_bounds [OF assms] have "2 ^ 52 * ?s \<le> x" "x < 2 ^ 53 * ?s"
    unfolding lo hi by simp_all
  with s show ?thesis by (simp add: field_simps)
qed

lemma significand_bounds:
  assumes "0 < x"
  shows "2 ^ 52 \<le> rne (x / 2 powi (expo x - 52)) \<and> rne (x / 2 powi (expo x - 52)) \<le> 2 ^ 53"
proof -
  from scaled_bounds [OF assms]
  have "real_of_int (2 ^ 52) \<le> x / 2 powi (expo x - 52)"
    "x / 2 powi (expo x - 52) \<le> real_of_int (2 ^ 53)" by simp_all
  then show ?thesis using rne_ge_int rne_le_int by blast
qed

lemma round53_bounds:
  assumes "0 < x"
  shows "2 powi expo x \<le> round53 x \<and> round53 x \<le> 2 powi (expo x + 1)"
proof -
  let ?s = "(2::real) powi (expo x - 52)"
  let ?n = "rne (x / ?s)"
  have s: "0 < ?s" by (simp add: zero_less_power_int)
  have lo: "2 powi expo x = 2 ^ 52 * ?s"
    by (rule powi_split52)
  have hi: "2 powi (expo x + 1) = 2 ^ 53 * ?s"
    by (rule powi_split53)
  from significand_bounds [OF assms] have "real_of_int (2 ^ 52) \<le> real_of_int ?n"
    "real_of_int ?n \<le> real_of_int (2 ^ 53)" by linarith+
  then have "2 ^ 52 \<le> real_of_int ?n" "real_of_int ?n \<le> 2 ^ 53" by simp_all
  with s have "2 ^ 52 * ?s \<le> real_of_int ?n * ?s" "real_of_int ?n * ?s \<le> 2 ^ 53 * ?s"
    by (simp_all add: mult_right_mono)
  then show ?thesis unfolding lo hi round53_def by simp
qed

lemma round53_pos: "0 < x \<Longrightarrow> 0 < round53 x"
proof -
  assume "0 < x"
  from round53_bounds [OF this] have "2 powi expo x \<le> round53 x" by simp
  moreover have "0 < (2::real) powi expo x" by (rule zero_less_power_int) simp
  ultimately show ?thesis by linarith
qed

lemma round53_mono:
  assumes "0 < x" "x \<le> y"
  shows "round53 x \<le> round53 y"
proof (cases "expo x = expo y")
  case True
  let ?s = "(2::real) powi (expo y - 52)"
  have s: "0 < ?s" by (simp add: zero_less_power_int)
  from assms(2) s have "x / ?s \<le> y / ?s" by (simp add: divide_right_mono)
  then have "rne (x / ?s) \<le> rne (y / ?s)" by (rule rne_mono)
  then have "real_of_int (rne (x / ?s)) \<le> real_of_int (rne (y / ?s))" by simp
  with s have "real_of_int (rne (x / ?s)) * ?s \<le> real_of_int (rne (y / ?s)) * ?s"
    by (simp add: mult_right_mono)
  then show ?thesis by (simp add: round53_def True)
next
  case False
  with expo_mono [OF assms] have "expo x + 1 \<le> expo y" by simp
  then have "(2::real) powi (expo x + 1) \<le> 2 powi expo y"
    by (intro power_int_increasing) simp_all
  moreover from assms have y: "0 < y" by simp
  from round53_bounds [OF assms(1)] round53_bounds [OF y]
  have "round53 x \<le> 2 powi (expo x + 1)" "2 powi expo y \<le> round53 y" by simp_all
  ultimately show ?thesis by linarith
qed


lemma double_zero: "double 0 = 0"
  by (simp add: double_def)

lemma double_mono: "x \<le> y \<Longrightarrow> double x \<le> double y"
proof -
  assume xy: "x \<le> y"
  consider "0 < x" | "x = 0" | "x < 0" "y < 0" | "x < 0" "0 \<le> y" by linarith
  then show ?thesis
  proof cases
    case 1
    with xy round53_mono [of x y] show ?thesis by (simp add: double_def)
  next
    case 2
    with xy round53_pos [of y] show ?thesis by (auto simp: double_def less_imp_le)
  next
    case 3
    with xy round53_mono [of "- y" "- x"] show ?thesis by (simp add: double_def)
  next
    case 4
    with round53_pos [of "- x"] round53_pos [of y] show ?thesis
      by (auto simp: double_def)
  qed
qed


lemma double_nonneg: "0 \<le> x \<Longrightarrow> 0 \<le> double x"
  using double_mono [of 0 x] by (simp add: double_zero)

section \<open>Results about extract\_brand\_from\_queue\<close>

lemma split_char_not_Nil: "split_char c s \<noteq> []"
  by (induction s) (auto split: list.splits)








section \<open>Results about the executor\<close>

lemma ensure_clients_four:
  "ensure_clients s ex = (Inr t, ex') \<Longrightarrow> length t = 4"
  by (auto simp: ensure_clients_def split: if_splits)

lemma ensure_clients_configured:
  "truthy (gemini_api_key s) \<Longrightarrow> \<exists>t. fst (ensure_clients s ex) = Inr t"
  by (simp add: ensure_clients_def)

lemma unpack3_of_four:
  "length t = 4 \<Longrightarrow> unpack3 t = Inl (ValueError ''too many values to unpack (expected 3)'')"
  by (auto simp: unpack3_def split: list.splits)

text \<open>
  C2. With \<open>gemini_api_key\<close> configured, \<open>invoke_general\<close> and \<open>invoke_prompt_text\<close> never
  reach the client: \<open>_ensure_clients\<close> returns four values and both functions unpack
  three, so each call raises \<open>ValueError\<close> before \<open>_run_chain\<close> is entered. No permit is
  acquired and no event is visible; the only effect is that the shared clients are built.
\<close>

theorem invoke_raises_before_permit:
  assumes "truthy (gemini_api_key s)"
  shows "invoke_general s client ex data timeout =
           (Some (Inl (ValueError ''too many values to unpack (expected 3)'')),
            snd (ensure_clients s ex), [])
       \<and> invoke_prompt_text s client ex prompt timeout =
           (Some (Inl (ValueError ''too many values to unpack (expected 3)'')),
            snd (ensure_clients s ex), [])"
proof -
  from ensure_clients_configured [OF assms, of ex]
  obtain t ex' where e: "ensure_clients s ex = (Inr t, ex')"
    by (cases "ensure_clients s ex") auto
  from ensure_clients_four [OF e] have u: "unpack3 t = Inl (ValueError ''too many values to unpack (expected 3)'')"
    by (rule unpack3_of_four)
  show ?thesis
    by (simp add: invoke_general_def invoke_prompt_text_def e u)
qed

theorem invoke_raises_before_permit_witness:
  "truthy (gemini_api_key demo_settings)
   \<and> invoke_general demo_settings demo_client fresh_executor ''hello'' 30 =
       (Some (Inl (ValueError ''too many values to unpack (expected 3)'')),
        \<lparr>chat_model = Some ChatGoogleGenerativeAI,
         embeddings_model = Some GoogleGenerativeAIEmbeddings,
         semaphore = Some 4, min_delay = 2\<rparr>, [])
   \<and> invoke_prompt_text demo_settings demo_client fresh_executor ''hello'' 30 =
       (Some (Inl (ValueError ''too many values to unpack (expected 3)'')),
        \<lparr>chat_model = Some ChatGoogleGenerativeAI,
         embeddings_model = Some GoogleGenerativeAIEmbeddings,
         semaphore = Some 4, min_delay = 2\<rparr>, [])"
proof -
  have k: "truthy (gemini_api_key demo_settings)"
    by (simp add: truthy_def demo_settings_def)
  from invoke_raises_before_permit [OF k, of demo_client fresh_executor "''hello''" 30 "''hello''"] k
  show ?thesis
    by (simp add: ensure_clients_def demo_settings_def fresh_executor_def truthy_def)
qed

text \<open>\<open>_run_chain\<close> itself unpacks four values, and called directly at the same settings
  it acquires the permit, invokes the client, sleeps the minimum delay and releases.\<close>

lemma run_chain_reaches_client:
  "run_chain demo_settings demo_client fresh_executor GENERAL_PROMPT ''hello'' 30 =
     (Some (Inr ''ok''),
      \<lparr>chat_model = Some ChatGoogleGenerativeAI,
       embeddings_model = Some GoogleGenerativeAIEmbeddings,
       semaphore = Some 4, min_delay = 2\<rparr>,
      [Acquire, Invoke ''hello'', Sleep 2, Release])"
  by (simp add: run_chain_def ensure_clients_def unpack4_def demo_settings_def
        fresh_executor_def demo_client_def truthy_def)

section \<open>Results about the adapter\<close>

lemma mock_adapter_built:
  "get_llm_adapter mock_settings 64 no_remote (\<lambda>prompt operation. no_remote prompt)
     = Inr mock_adapter"
  by (simp add: get_llm_adapter_def build_chat_models_def mock_settings_def mock_adapter_def)

lemma demo_summary_prompt:
  "summary_prompt 64 [''hello''] =
     ''You are an analyst summarizing brand mentions.'' @ [nl]
     @ ''Summarize the following texts into a concise overview (max 64 tokens).'' @ [nl]
     @ ''Texts:'' @ [nl] @ ''hello'' @ [nl]"
  by (simp add: summary_prompt_def show_int_def show_nat.simps join_lines_def)

text \<open>
  C3. Under the mock provider \<open>summarize(["hello"])\<close> returns the JSON dump of the default
  sentiment, not the first line of the prompt: \<open>MockLLM\<close> returns the first line only when
  the lowered prompt contains \<open>summary\<close>, and the summary prompt says \<open>summarizing\<close> and
  \<open>Summarize\<close>.
\<close>

theorem mock_summarize_returns_sentiment_json:
  "summarize mock_adapter [''hello''] =
     Inr (Dumps [(''positive'', 33 / 100), (''negative'', 33 / 100), (''neutral'', 34 / 100)])
   \<and> take 160 (hd (split_char nl (summary_prompt (max_tokens mock_adapter) [''hello''])))
       = ''You are an analyst summarizing brand mentions.''
   \<and> summarize mock_adapter [''hello'']
       \<noteq> Inr (Text (take 160 (hd (split_char nl (summary_prompt (max_tokens mock_adapter) [''hello''])))))"
  by (simp add: summarize_def invoke_def call_llm_def content_def mock_adapter_def
        demo_summary_prompt mock_ainvoke_def nl_def lower_def lower_char_def Let_def)

lemma sibling_other_response_defaults:
  "sentiment_of_response json_loads float_of_string Other =
     Inr [(''positive'', 33 / 100), (''negative'', 33 / 100), (''neutral'', 34 / 100)]"
  by (simp add: sentiment_of_response_def parsed_response_def default_sentiment_def
        py_float_def dict_get_def)

lemma undecodable_text_defaults:
  "json_loads s = None \<Longrightarrow>
   sentiment_of_response json_loads float_of_string (Text s) =
     Inr [(''positive'', 33 / 100), (''negative'', 33 / 100), (''neutral'', 34 / 100)]"
  by (simp add: sentiment_of_response_def parsed_response_def default_sentiment_def
        py_float_def dict_get_def)

text \<open>
  C6. When the response is a string that decodes to a JSON value other than an object (a
  list, a number, a string, a boolean, null), \<open>sentiment\<close> raises \<open>AttributeError\<close>: the
  decoded value has no \<open>get\<close>. The default is returned only when decoding fails, or when
  the response is neither a string nor a dictionary.
\<close>

theorem sentiment_raises_on_non_object:
  assumes "invoke ad (sentiment_prompt texts) ''sentiment'' = Inr (Text s)"
    and "json_loads s = Some j"
    and "\<forall>d. j \<noteq> JObj d"
  shows "sentiment ad json_loads float_of_string texts = Inl AttributeError"
  using assms
  by (cases j) (simp_all add: sentiment_def sentiment_of_response_def parsed_response_def)

theorem sentiment_raises_on_non_object_witness:
  "invoke list_answer (sentiment_prompt [''hello'']) ''sentiment'' = Inr (Text ''[]'')
   \<and> demo_json_loads ''[]'' = Some (JArr [])
   \<and> sentiment list_answer demo_json_loads (\<lambda>s. None) [''hello''] = Inl AttributeError"
proof -
  have i: "invoke list_answer (sentiment_prompt [''hello'']) ''sentiment'' = Inr (Text ''[]'')"
    by (simp add: invoke_def call_llm_def content_def list_answer_def)
  have l: "demo_json_loads ''[]'' = Some (JArr [])"
    by (simp add: demo_json_loads_def)
  have n: "\<forall>d. JArr [] \<noteq> JObj d" by simp
  from sentiment_raises_on_non_object
         [of list_answer "[''hello'']" "''[]''" demo_json_loads "JArr []" "\<lambda>s. None"] i l n
  show ?thesis by simp
qed

section \<open>Results about handle\_payload\<close>

text \<open>
  C7. A payload that decodes to an object, fails validation and holds under \<open>chunkId\<close> a
  value that is not a string is recorded nowhere: building the \<open>FailureRecord\<close> raises,
  \<open>_handle_payload\<close> lets the exception through, and the store is as it was.
\<close>

theorem validation_failure_with_non_string_chunk_id_is_lost:
  assumes "safe_json_loads sv payload = Some (JObj d)"
    and "model_validate sv (JObj d) = None"
    and "map_of d ''chunkId'' = Some v"
    and "\<forall>c. v \<noteq> JStr c"
  shows "handle_payload sv w k0 queue_key payload fetch_time_ms = (Raised ValidationError, w)"
  using assms
  by (cases v)
     (simp_all add: handle_payload_def record_failure_def after_failure_def dict_get_def Let_def)

theorem validation_failure_with_non_string_chunk_id_is_lost_witness:
  \<open>safe_json_loads demo_services ''{"chunkId": 5}'' = Some (JObj [(''chunkId'', JNum 5)])
   \<and> model_validate demo_services (JObj [(''chunkId'', JNum 5)]) = None
   \<and> handle_payload demo_services empty_world 0 ''q:acme:chunks'' ''{"chunkId": 5}'' 5
       = (Raised ValidationError, empty_world)
   \<and> results_appended empty_world
        (snd (handle_payload demo_services empty_world 0 ''q:acme:chunks'' ''{"chunkId": 5}'' 5)) = 0
   \<and> failures_appended empty_world
        (snd (handle_payload demo_services empty_world 0 ''q:acme:chunks'' ''{"chunkId": 5}'' 5)) = 0\<close>
proof -
  have a: \<open>safe_json_loads demo_services ''{"chunkId": 5}'' = Some (JObj [(''chunkId'', JNum 5)])\<close>
    by (simp add: demo_services_def)
  have b: "model_validate demo_services (JObj [(''chunkId'', JNum 5)]) = None"
    by (simp add: demo_services_def)
  have c: "map_of [(''chunkId'', JNum 5)] ''chunkId'' = Some (JNum 5)" by simp
  have d: "\<forall>c. JNum 5 \<noteq> JStr c" by simp
  from validation_failure_with_non_string_chunk_id_is_lost
         [OF a b c d, of empty_world 0 "''q:acme:chunks''" 5] a b
  show ?thesis
    by (simp add: results_appended_def failures_appended_def)
qed

text \<open>Every other run, appends to the store succeeding, ends with exactly one append: a
  result after success, a failure record otherwise.\<close>

lemma record_failure_appends:
  assumes "\<forall>key. rpush_ok sv key"
  shows "after_failure (record_failure sv w brand reason_key message payload (JStr cid)) = (out, w')
    \<Longrightarrow> out = DeadLettered \<and> results_appended w w' = 0 \<and> failures_appended w w' = 1"
  using assms
  by (auto simp: record_failure_def storage_record_failure_def after_failure_def
        results_appended_def failures_appended_def is_result_def Let_def)

lemma handle_payload_appends_one:
  assumes ok: "\<forall>key. rpush_ok sv key"
    and run: "handle_payload sv w k0 queue_key payload fetch_time_ms = (out, w')"
  shows "(case out of
            Processed r \<Rightarrow> results_appended w w' = 1 \<and> failures_appended w w' = 0
          | DeadLettered \<Rightarrow> results_appended w w' = 0 \<and> failures_appended w w' = 1
          | Raised e \<Rightarrow> e = ValidationError \<and> w' = w)"
proof (cases "safe_json_loads sv payload")
  case None
  with run
  have r: "after_failure (record_failure sv w (extract_brand_from_queue queue_key)
             ''json_decode'' ''Invalid JSON'' payload (JStr ''unknown'')) = (out, w')"
    by (simp add: handle_payload_def Let_def)
  from record_failure_appends [OF ok r] show ?thesis by simp
next
  case (Some raw)
  show ?thesis
  proof (cases "model_validate sv raw")
    case None
    let ?cid = "case raw of JObj d \<Rightarrow> dict_get d ''chunkId'' (JStr ''unknown'') | _ \<Rightarrow> JStr ''unknown''"
    from run Some None
    have r: "after_failure (record_failure sv w (extract_brand_from_queue queue_key)
               ''validation'' ''Validation failed'' payload ?cid) = (out, w')"
      by (simp add: handle_payload_def Let_def)
    show ?thesis
    proof (cases "\<exists>c. ?cid = JStr c")
      case True
      then obtain c where "?cid = JStr c" ..
      with r have "after_failure (record_failure sv w (extract_brand_from_queue queue_key)
               ''validation'' ''Validation failed'' payload (JStr c)) = (out, w')"
        by simp
      from record_failure_appends [OF ok this] show ?thesis by simp
    next
      case False
      then have "record_failure sv w (extract_brand_from_queue queue_key)
               ''validation'' ''Validation failed'' payload ?cid = (Inl ValidationError, w)"
        by (cases ?cid) (simp_all add: record_failure_def)
      with r show ?thesis by (auto simp: after_failure_def)
    qed
  next
    case (Some ch)
    note ch = this
    let ?b = "if c_brand ch \<noteq> [] then c_brand ch else extract_brand_from_queue queue_key"
    show ?thesis
    proof (cases "process_chunk (pipeline sv) k0 ch fetch_time_ms")
      case (Inl e)
      with run \<open>safe_json_loads sv payload = Some raw\<close> ch
      have "after_failure (record_failure sv w ?b ''processing'' ''Processing failed'' payload
              (JStr (c_chunk_id ch))) = (out, w')"
        by (simp add: handle_payload_def Let_def)
      from record_failure_appends [OF ok this] show ?thesis by simp
    next
      case (Inr result)
      from ok have p: "push_result sv w ?b result =
          (Inr (push_time_ms sv),
           w\<lparr>rpushed := rpushed w @ [(redis_result_prefix sv @ '':'' @ ?b @ '':chunks'',
                ResultItem (format_for_orchestrator (utc_now sv) result))]\<rparr>)"
        by (simp add: push_result_def Let_def)
      from run \<open>safe_json_loads sv payload = Some raw\<close> ch Inr p
      show ?thesis
        by (auto simp: handle_payload_def Let_def results_appended_def failures_appended_def
              is_result_def)
    qed
  qed
qed

section \<open>Results about the metrics of a chunk\<close>

lemma demo_process_chunk:
  "process_chunk demo_pipeline 0 demo_chunk 5 = Inr demo_result"
  by code_simp

lemma demo_format: "format_for_orchestrator ''2024-01-01T00:00:05+00:00'' demo_result = demo_payload"
  by code_simp

lemma demo_run:
  "handle_payload demo_services empty_world 0 ''q:acme:chunks'' ''{}'' 5 =
     (Processed demo_final, demo_world)"
  by code_simp







lemma handle_payload_processed:
  assumes "handle_payload sv w k0 queue_key payload fetch_time_ms = (Processed r, w')"
  shows "\<exists>ch result brand.
           process_chunk (pipeline sv) k0 ch fetch_time_ms = Inr result
         \<and> r = result\<lparr>r_metrics := (r_metrics result)
                  \<lparr>io_time_ms := double (io_time_ms (r_metrics result) + push_time_ms sv)\<rparr>\<rparr>
         \<and> w' = w\<lparr>rpushed := rpushed w @
                     [(redis_result_prefix sv @ '':'' @ brand @ '':chunks'',
                       ResultItem (format_for_orchestrator (utc_now sv) result))],
                   chunks_processed_total := chunks_processed_total w @ [(s_worker_id sv, brand)]\<rparr>"
proof -
  have nf: "after_failure rw = (Processed r, w') \<Longrightarrow> False" for rw
    by (cases rw) (auto simp: after_failure_def split: sum.splits)
  from assms nf obtain raw where raw: "safe_json_loads sv payload = Some raw"
    by (cases "safe_json_loads sv payload") (auto simp: handle_payload_def Let_def dest: nf)
  from assms nf raw obtain ch where ch: "model_validate sv raw = Some ch"
    by (cases "model_validate sv raw") (auto simp: handle_payload_def Let_def dest: nf)
  let ?b = "if c_brand ch \<noteq> [] then c_brand ch else extract_brand_from_queue queue_key"
  from assms nf raw ch obtain result where
    res: "process_chunk (pipeline sv) k0 ch fetch_time_ms = Inr result"
    by (cases "process_chunk (pipeline sv) k0 ch fetch_time_ms")
       (auto simp: handle_payload_def Let_def dest: nf)
  from assms nf raw ch res have ok: "rpush_ok sv (redis_result_prefix sv @ '':'' @ ?b @ '':chunks'')"
    by (cases "rpush_ok sv (redis_result_prefix sv @ '':'' @ ?b @ '':chunks'')")
       (auto simp: handle_payload_def push_result_def Let_def dest: nf)
  from assms raw ch res ok
  have "r = result\<lparr>r_metrics := (r_metrics result)
                  \<lparr>io_time_ms := double (io_time_ms (r_metrics result) + push_time_ms sv)\<rparr>\<rparr>
         \<and> w' = w\<lparr>rpushed := rpushed w @
                     [(redis_result_prefix sv @ '':'' @ ?b @ '':chunks'',
                       ResultItem (format_for_orchestrator (utc_now sv) result))],
                   chunks_processed_total := chunks_processed_total w @ [(s_worker_id sv, ?b)]\<rparr>"
    by (simp add: handle_payload_def push_result_def Let_def)
  with res show ?thesis
    by (intro exI [of _ ch] exI [of _ result] exI [of _ ?b]) simp
qed

text \<open>The two runs whose clocks stand still but for two groupings: the clocks never run
  backwards, and the runs end as follows.\<close>

lemma rounding_clock_mono: "mono (rounding_clock j)"
proof -
  have a: "0 \<le> double (1 / 1000)" by (intro double_nonneg) simp
  have b: "double (1 / 1000) \<le> double (10 / 1000)" by (intro double_mono) simp
  from a b show ?thesis by (auto simp: mono_def rounding_clock_def)
qed






text \<open>
  C5, as the code has it. When \<open>_handle_payload\<close> has processed a chunk, the payload pushed
  holds the metrics as \<open>process_chunk\<close> returned them, and the result object differs from
  what \<open>process_chunk\<close> returned in one field only: \<open>metrics.io_time_ms\<close>, to which the push
  time was added after the push.
\<close>

theorem result_changed_after_push:
  assumes "handle_payload sv w k0 queue_key payload fetch_time_ms = (Processed r, w')"
  shows "\<exists>result key.
           rpushed w' = rpushed w @ [(key, ResultItem (format_for_orchestrator (utc_now sv) result))]
         \<and> o_meta_metrics (format_for_orchestrator (utc_now sv) result) = r_metrics result
         \<and> r = result\<lparr>r_metrics := (r_metrics result)
                  \<lparr>io_time_ms := double (io_time_ms (r_metrics result) + push_time_ms sv)\<rparr>\<rparr>
         \<and> r_chunk_id r = r_chunk_id result
         \<and> r_brand r = r_brand result
         \<and> r_timestamp r = r_timestamp result
         \<and> r_clusters r = r_clusters result
         \<and> (r_metrics r)\<lparr>io_time_ms := io_time_ms (r_metrics result)\<rparr> = r_metrics result"
proof -
  from handle_payload_processed [OF assms] obtain ch result brand where
    r: "r = result\<lparr>r_metrics := (r_metrics result)
                  \<lparr>io_time_ms := double (io_time_ms (r_metrics result) + push_time_ms sv)\<rparr>\<rparr>"
    and w: "w' = w\<lparr>rpushed := rpushed w @
                     [(redis_result_prefix sv @ '':'' @ brand @ '':chunks'',
                       ResultItem (format_for_orchestrator (utc_now sv) result))],
                   chunks_processed_total := chunks_processed_total w @ [(s_worker_id sv, brand)]\<rparr>"
    by blast
  have m: "o_meta_metrics (format_for_orchestrator (utc_now sv) result) = r_metrics result"
    by (simp add: format_for_orchestrator_def Let_def)
  from w have "rpushed w' = rpushed w @
      [(redis_result_prefix sv @ '':'' @ brand @ '':chunks'',
        ResultItem (format_for_orchestrator (utc_now sv) result))]"
    by simp
  with m r show ?thesis by auto
qed

theorem result_changed_after_push_witness:
  "handle_payload demo_services empty_world 0 ''q:acme:chunks'' ''{}'' 5
     = (Processed demo_final, demo_world)
   \<and> (\<exists>result key.
           rpushed demo_world = rpushed empty_world @
             [(key, ResultItem (format_for_orchestrator (utc_now demo_services) result))]
         \<and> o_meta_metrics (format_for_orchestrator (utc_now demo_services) result) = r_metrics result
         \<and> demo_final = result\<lparr>r_metrics := (r_metrics result)
                  \<lparr>io_time_ms :=
                     double (io_time_ms (r_metrics result) + push_time_ms demo_services)\<rparr>\<rparr>
         \<and> r_chunk_id demo_final = r_chunk_id result
         \<and> r_brand demo_final = r_brand result
         \<and> r_timestamp demo_final = r_timestamp result
         \<and> r_clusters demo_final = r_clusters result
         \<and> (r_metrics demo_final)\<lparr>io_time_ms := io_time_ms (r_metrics result)\<rparr> = r_metrics result)"
  using demo_run result_changed_after_push [OF demo_run]
  by (intro conjI)

text \<open>In the same run the payload in the store says \<open>io_time_ms = 5\<close> and the result
  object, when the method returns, \<open>io_time_ms = 45\<close>.\<close>

theorem result_changed_after_push_counterexample:
  "handle_payload demo_services empty_world 0 ''q:acme:chunks'' ''{}'' 5
     = (Processed demo_final, demo_world)
   \<and> rpushed demo_world = [(''r:acme:chunks'', ResultItem demo_payload)]
   \<and> io_time_ms (o_meta_metrics demo_payload) = 5
   \<and> io_time_ms (r_metrics demo_final) = 45
   \<and> io_time_ms (r_metrics demo_final) \<noteq> io_time_ms (o_meta_metrics demo_payload)"
  by (simp add: demo_run) (simp add: demo_final_def demo_metrics_def demo_world_def demo_payload_def)

section \<open>Results about preprocessing\<close>

text \<open>The texts of the specification's scenarios: a text that is only a URL is cleaned to
  nothing, and of the three mentions of the first scenario the second is a duplicate of
  the first.\<close>

lemma clean_text_url_only: "clean_text ''https://x.com'' = []"
  by (simp add: clean_text_def url_match_def is_space_def strip_def lower_def)

lemma preprocess_demo_chunk:
  "map (\<lambda>m. (m_id m, m_text m)) (preprocess (c_mentions demo_chunk))
     = [(''m1'', ''great product!''), (''m3'', ''terrible bug'')]"
  by code_simp









section \<open>Results about the hash embedding\<close>

text \<open>The digest of \<open>abc\<close>, as FIPS 180-4 lists it (ba7816bf ... f20015ad).\<close>

lemma sha256_abc:
  "map unat (sha256 (utf8 ''abc'')) =
     [186, 120, 22, 191, 143, 1, 207, 234, 65, 65, 64, 222, 93, 174, 34, 35,
      176, 3, 97, 163, 150, 23, 122, 156, 180, 16, 255, 97, 242, 0, 21, 173]"
  by code_simp










section \<open>Results about the worker identifier\<close>

lemma get_settings_caches:
  "get_settings read_env env st = (Inr s, st1) \<Longrightarrow>
     settings_cache st1 = Some s \<and> uuids_drawn st1 = uuids_drawn st"
  by (auto simp: get_settings_def split: option.splits sum.splits)







end
